theory Spec2Isabelle
  imports Complex_Main "HOL-Library.AList" "HOL-Library.Sublist"
begin

section \<open>Python values and exceptions\<close>

text \<open>
  The values that occur in address tuples and as access modes: \<open>None\<close>, strings and
  integers.
\<close>

datatype pyval = PNone | PStr string | PInt int

text \<open>
  Exception classes named by the handlers and \<open>raise\<close> statements of the modelled code.
  An exception value carries its class, its message and, for \<open>raise ... from err\<close>, its
  cause.
\<close>

datatype exc_class =
    ValueError | AttributeError | KeyError | IndexError | TypeError | OSError
  | Neo4jError | ClientError | DriverError | BoltError
  | ServiceUnavailable | SessionExpired
  | ReadServiceUnavailable | WriteServiceUnavailable
  | ConfigurationError | OtherError nat

datatype exn = Exn (exc_cls: exc_class) (exc_msg: string) (exc_cause: "exn option")

abbreviation raise_new :: "exc_class \<Rightarrow> string \<Rightarrow> exn" where
  "raise_new c m \<equiv> Exn c m None"

section \<open>Addresses (neo4j/addressing.py)\<close>

datatype py_class =
    Address | IPv4Address | IPv6Address
  | ResolvedAddress | ResolvedIPv4Address | ResolvedIPv6Address

datatype family = AF_INET | AF_INET6

text \<open>The class statements of the module: direct subclasses and the \<open>family\<close> attribute.\<close>

fun subclasses :: "py_class \<Rightarrow> py_class list" where
  "subclasses Address = [IPv4Address, IPv6Address, ResolvedAddress]"
| "subclasses IPv4Address = [ResolvedIPv4Address]"
| "subclasses IPv6Address = [ResolvedIPv6Address]"
| "subclasses ResolvedAddress = [ResolvedIPv4Address, ResolvedIPv6Address]"
| "subclasses ResolvedIPv4Address = []"
| "subclasses ResolvedIPv6Address = []"

fun family_of :: "py_class \<Rightarrow> family option" where
  "family_of Address = None"
| "family_of IPv4Address = Some AF_INET"
| "family_of IPv6Address = Some AF_INET6"
| "family_of ResolvedAddress = None"
| "family_of ResolvedIPv4Address = Some AF_INET"
| "family_of ResolvedIPv6Address = Some AF_INET6"

fun issubclass :: "py_class \<Rightarrow> py_class \<Rightarrow> bool" where
  "issubclass c Address = True"
| "issubclass c IPv4Address = (c = IPv4Address \<or> c = ResolvedIPv4Address)"
| "issubclass c IPv6Address = (c = IPv6Address \<or> c = ResolvedIPv6Address)"
| "issubclass c ResolvedAddress =
     (c = ResolvedAddress \<or> c = ResolvedIPv4Address \<or> c = ResolvedIPv6Address)"
| "issubclass c ResolvedIPv4Address = (c = ResolvedIPv4Address)"
| "issubclass c ResolvedIPv6Address = (c = ResolvedIPv6Address)"

text \<open>
  An address object: the tuple itself, the class the constructor gave it, and the
  \<open>_host_name\<close> attribute, which only \<open>ResolvedAddress.__new__\<close> sets.
\<close>

record address =
  parts :: "pyval list"
  cls :: py_class
  host_name_attr :: "pyval option"

text \<open>\<open>_AddressMeta._subclass_by_family\<close>: exactly one direct subclass of that family.\<close>

definition subclass_by_family :: "py_class \<Rightarrow> family \<Rightarrow> exn + py_class" where
  "subclass_by_family c f =
     (case filter (\<lambda>sc. family_of sc = Some f) (subclasses c) of
        [sc] \<Rightarrow> Inr sc
      | _ \<Rightarrow> Inl (raise_new ValueError ''needs exactly one direct subclass''))"

text \<open>The argument of a constructor: a plain tuple or an address object.\<close>

datatype iterable = Tuple "pyval list" | Obj address

fun iter_parts :: "iterable \<Rightarrow> pyval list" where
  "iter_parts (Tuple ps) = ps"
| "iter_parts (Obj a) = parts a"

fun is_instance :: "iterable \<Rightarrow> py_class \<Rightarrow> bool" where
  "is_instance (Tuple ps) c = False"
| "is_instance (Obj a) c = issubclass (cls a) c"

text \<open>\<open>Address.__new__(cls, iterable)\<close>.\<close>

definition Address_new :: "py_class \<Rightarrow> iterable \<Rightarrow> exn + address" where
  "Address_new c it =
     (case it of
        Obj a \<Rightarrow>
          if issubclass (cls a) c then Inr a
          else if length (parts a) = 2 then
            (case subclass_by_family c AF_INET of
               Inl e \<Rightarrow> Inl e
             | Inr k \<Rightarrow> Inr \<lparr>parts = parts a, cls = k, host_name_attr = None\<rparr>)
          else if length (parts a) = 4 then
            (case subclass_by_family c AF_INET6 of
               Inl e \<Rightarrow> Inl e
             | Inr k \<Rightarrow> Inr \<lparr>parts = parts a, cls = k, host_name_attr = None\<rparr>)
          else Inl (raise_new ValueError ''Addresses must consist of either two parts (IPv4) or four parts (IPv6)'')
      | Tuple ps \<Rightarrow>
          if length ps = 2 then
            (case subclass_by_family c AF_INET of
               Inl e \<Rightarrow> Inl e
             | Inr k \<Rightarrow> Inr \<lparr>parts = ps, cls = k, host_name_attr = None\<rparr>)
          else if length ps = 4 then
            (case subclass_by_family c AF_INET6 of
               Inl e \<Rightarrow> Inl e
             | Inr k \<Rightarrow> Inr \<lparr>parts = ps, cls = k, host_name_attr = None\<rparr>)
          else Inl (raise_new ValueError ''Addresses must consist of either two parts (IPv4) or four parts (IPv6)''))"

text \<open>\<open>ResolvedAddress.__new__(cls, iterable, host_name)\<close>.\<close>

definition ResolvedAddress_new :: "py_class \<Rightarrow> iterable \<Rightarrow> pyval \<Rightarrow> exn + address" where
  "ResolvedAddress_new c it host_name =
     (case Address_new c it of
        Inl e \<Rightarrow> Inl e
      | Inr new \<Rightarrow> Inr (new\<lparr>host_name_attr := Some host_name\<rparr>))"

text \<open>
  The \<open>unresolved\<close> property. The resolved classes find it in \<open>ResolvedAddress\<close>, every
  other class in \<open>Address\<close>.
\<close>

definition unresolved :: "address \<Rightarrow> exn + address" where
  "unresolved a =
     (if issubclass (cls a) ResolvedAddress then
        (case host_name_attr a of
           None \<Rightarrow> Inl (raise_new AttributeError ''_host_name'')
         | Some h \<Rightarrow> Address_new Address (Tuple (h # drop 1 (parts a))))
      else Inr a)"

section \<open>Dictionaries and ordered sets\<close>

text \<open>
  A Python \<open>dict\<close> as an association list in insertion order. Keys are compared through
  \<open>kf\<close>: addresses are tuples, so two address objects are the same key when their parts
  are equal, whatever their class. Assignment to a key that is present keeps the stored
  key object and its position.
\<close>

fun dict_get :: "('k \<Rightarrow> 'h) \<Rightarrow> ('k \<times> 'v) list \<Rightarrow> 'k \<Rightarrow> 'v option" where
  "dict_get kf [] a = None"
| "dict_get kf ((k, v) # d) a = (if kf k = kf a then Some v else dict_get kf d a)"

fun dict_set :: "('k \<Rightarrow> 'h) \<Rightarrow> ('k \<times> 'v) list \<Rightarrow> 'k \<Rightarrow> 'v \<Rightarrow> ('k \<times> 'v) list" where
  "dict_set kf [] a v = [(a, v)]"
| "dict_set kf ((k, x) # d) a v =
     (if kf k = kf a then (k, v) # d else (k, x) # dict_set kf d a v)"

fun dict_del :: "('k \<Rightarrow> 'h) \<Rightarrow> ('k \<times> 'v) list \<Rightarrow> 'k \<Rightarrow> ('k \<times> 'v) list" where
  "dict_del kf [] a = []"
| "dict_del kf ((k, x) # d) a = (if kf k = kf a then d else (k, x) # dict_del kf d a)"

text \<open>\<open>OrderedSet.discard\<close> and membership, on a list without duplicates.\<close>

definition discard :: "address list \<Rightarrow> address \<Rightarrow> address list" where
  "discard xs a = filter (\<lambda>x. parts x \<noteq> parts a) xs"

definition contains :: "address list \<Rightarrow> address \<Rightarrow> bool" where
  "contains xs a = (parts a \<in> set (map parts xs))"

text \<open>\<open>OrderedSet(elements)\<close>: the elements in order, later duplicates dropped.\<close>

fun ordered_set :: "address list \<Rightarrow> address list" where
  "ordered_set [] = []"
| "ordered_set (x # xs) = x # ordered_set (filter (\<lambda>y. parts y \<noteq> parts x) xs)"

section \<open>Deadlines\<close>

text \<open>
  Modelled from the spec: the \<open>Deadline\<close> class of \<open>neo4j/_deadline.py\<close>, which is not
  among the sources. A deadline is either no deadline or an absolute instant of the
  monotonic clock, and remembers the timeout it was made from.
  \<open>from_timeout_or_deadline\<close> accepts \<open>None\<close>, a non-negative number of seconds or a
  deadline and rejects a negative number (the spec does not name the error;
  \<open>ValueError\<close> stands for it). \<open>to_timeout\<close> is \<open>None\<close> without a deadline and
  \<open>max(0, deadline - now)\<close> otherwise; \<open>expired\<close> is \<open>to_timeout() == 0\<close>; merging
  keeps the more restrictive deadline, with no deadline as the identity.
\<close>

datatype deadline = Deadline (instant: "real option") (original_timeout: "real option")

datatype timeout_arg = TNone | TSeconds real | TDeadline deadline

definition from_timeout_or_deadline :: "real \<Rightarrow> timeout_arg \<Rightarrow> exn + deadline" where
  "from_timeout_or_deadline t_now x =
     (case x of
        TNone \<Rightarrow> Inr (Deadline None None)
      | TSeconds t \<Rightarrow>
          if t < 0 then Inl (raise_new ValueError ''negative timeout'')
          else Inr (Deadline (Some (t_now + t)) (Some t))
      | TDeadline d \<Rightarrow> Inr d)"

definition to_timeout :: "deadline \<Rightarrow> real \<Rightarrow> real option" where
  "to_timeout d t_now =
     (case instant d of None \<Rightarrow> None | Some i \<Rightarrow> Some (max 0 (i - t_now)))"

definition expired :: "deadline \<Rightarrow> real \<Rightarrow> bool" where
  "expired d t_now = (to_timeout d t_now = Some 0)"

definition merge_deadlines :: "deadline \<Rightarrow> deadline \<Rightarrow> deadline" where
  "merge_deadlines d1 d2 =
     (case instant d1 of
        None \<Rightarrow> d2
      | Some i1 \<Rightarrow>
          (case instant d2 of
             None \<Rightarrow> d1
           | Some i2 \<Rightarrow> if i2 < i1 then d2 else d1))"

definition merge_deadlines_and_timeouts :: "real \<Rightarrow> timeout_arg \<Rightarrow> timeout_arg \<Rightarrow> exn + deadline" where
  "merge_deadlines_and_timeouts t_now x y =
     (case from_timeout_or_deadline t_now x of
        Inl e \<Rightarrow> Inl e
      | Inr d1 \<Rightarrow>
          (case from_timeout_or_deadline t_now y of
             Inl e \<Rightarrow> Inl e
           | Inr d2 \<Rightarrow> Inr (merge_deadlines d1 d2)))"

section \<open>Connections, the environment and the pool state\<close>

text \<open>
  The connection object is a collaborator (\<open>AsyncBolt\<close>, not among the sources). Its own
  state is what the pool reads: the liveness flags, \<open>is_reset\<close> and the instant since
  which it is idle. The pool itself owns \<open>in_use\<close> and the \<open>pool\<close> back-reference.
\<close>

record bolt_state =
  closed_f :: bool
  defunct_f :: bool
  stale_f :: bool
  is_reset :: bool
  idle_since :: real

record connection =
  bolt :: bolt_state
  in_use :: bool
  pool_set :: bool

type_synonym conn_id = nat

text \<open>Modelled from the spec: a routing answer, the server's mapping of cluster roles to
  addresses with a TTL and, optionally, the database name the server reports.\<close>

datatype role = ROUTE | READ | WRITE | OtherRole

record routing_record =
  servers :: "(role \<times> address list) list"
  rec_ttl :: real
  rec_db :: "pyval option"

text \<open>
  Everything the code awaits or draws is answered by the environment. The state counts
  the questions asked (\<open>tick\<close>), and the \<open>n\<close>-th question is answered by the value of
  the oracle at \<open>n\<close>: the exception an I/O call raises, if any, the state of the
  connection after it, the time it took, whether a wait on the condition was notified,
  the answer to a routing request, and the index \<open>random.choice\<close> picks. The
  environment also fixes what the code cannot see in the sources: the base classes of
  each exception class, the two predicates on exceptions, the resolver, and the order
  in which a Python \<open>set\<close> of addresses is iterated.
\<close>

record env =
  bases :: "exc_class \<Rightarrow> exc_class list"
  is_fatal_during_discovery :: "exn \<Rightarrow> bool"
  is_retryable :: "exn \<Rightarrow> bool"
  io_time :: "nat \<Rightarrow> real"
  io_error :: "nat \<Rightarrow> exn option"
  bolt_after :: "nat \<Rightarrow> bolt_state"
  wait_result :: "nat \<Rightarrow> bool"
  route_result :: "nat \<Rightarrow> routing_record list"
  choice_index :: "nat \<Rightarrow> nat"
  resolve :: "address \<Rightarrow> address list"
  set_order :: "address list \<Rightarrow> address list"

definition isinstance :: "env \<Rightarrow> exn \<Rightarrow> exc_class \<Rightarrow> bool" where
  "isinstance env e c = (exc_cls e = c \<or> c \<in> set (bases env (exc_cls e)))"

text \<open>
  What an observer of the pool sees, in order. A fetch of a routing table is recorded
  when it ends, with the address asked and what came of it.
\<close>

datatype fetch_outcome = NoTable | GotTable pyval | Raised exn

datatype event =
    EvReset conn_id bolt_state
  | EvClose conn_id
  | EvOpen address
  | EvRoute conn_id
  | EvWait
  | EvNotifyAll
  | EvFetch address fetch_outcome
  | EvRoutingUpdate address pyval
  | EvDatabaseCallback pyval

datatype pool_limit = Limit int | Unlimited

record pool =
  max_connection_pool_size :: pool_limit
  heap :: "connection list"
  connections :: "(address \<times> conn_id list) list"
  connections_reservations :: "(address \<times> int) list"
  now :: real
  tick :: nat
  trace :: "event list"

text \<open>An awaited call: one question to the environment, and time passes.\<close>

definition io_step :: "env \<Rightarrow> 'a pool_scheme \<Rightarrow> 'a pool_scheme" where
  "io_step env st = st\<lparr>tick := Suc (tick st), now := now st + max 0 (io_time env (tick st))\<rparr>"

definition log_event :: "event \<Rightarrow> 'a pool_scheme \<Rightarrow> 'a pool_scheme" where
  "log_event ev st = st\<lparr>trace := trace st @ [ev]\<rparr>"

definition set_bolt :: "conn_id \<Rightarrow> bolt_state \<Rightarrow> 'a pool_scheme \<Rightarrow> 'a pool_scheme" where
  "set_bolt c b st = st\<lparr>heap := (heap st)[c := (heap st ! c)\<lparr>bolt := b\<rparr>]\<rparr>"

text \<open>\<open>connection.reset()\<close> and \<open>connection.close()\<close>.\<close>

definition reset :: "env \<Rightarrow> 'a pool_scheme \<Rightarrow> conn_id \<Rightarrow> exn option \<times> 'a pool_scheme" where
  "reset env st c =
     (io_error env (tick st),
      io_step env (set_bolt c (bolt_after env (tick st))
        (log_event (EvReset c (bolt (heap st ! c))) st)))"

definition close_conn :: "env \<Rightarrow> conn_id \<Rightarrow> 'a pool_scheme \<Rightarrow> 'a pool_scheme" where
  "close_conn env c st =
     io_step env (set_bolt c (bolt_after env (tick st)) (log_event (EvClose c) st))"

text \<open>Modelled from the spec: \<open>is_idle_for\<close>, true when the connection has been idle at
  least that long.\<close>

definition is_idle_for :: "bolt_state \<Rightarrow> real \<Rightarrow> real \<Rightarrow> bool" where
  "is_idle_for b t t_now = (t \<le> t_now - idle_since b)"

section \<open>The connection pool (AsyncIOPool)\<close>

text \<open>\<open>self.connections.get(address, [])\<close>.\<close>

definition conns_at :: "'a pool_scheme \<Rightarrow> address \<Rightarrow> conn_id list" where
  "conns_at st a = (case dict_get parts (connections st) a of None \<Rightarrow> [] | Some l \<Rightarrow> l)"

text \<open>\<open>self.connections[address]\<close> on the \<open>defaultdict\<close>: a missing key is inserted.\<close>

definition touch_connections :: "'a pool_scheme \<Rightarrow> address \<Rightarrow> 'a pool_scheme" where
  "touch_connections st a =
     (case dict_get parts (connections st) a of
        None \<Rightarrow> st\<lparr>connections := dict_set parts (connections st) a []\<rparr>
      | Some l \<Rightarrow> st)"

definition reservations_at :: "'a pool_scheme \<Rightarrow> address \<Rightarrow> int" where
  "reservations_at st a =
     (case dict_get parts (connections_reservations st) a of None \<Rightarrow> 0 | Some n \<Rightarrow> n)"

definition add_reservation :: "'a pool_scheme \<Rightarrow> address \<Rightarrow> int \<Rightarrow> 'a pool_scheme" where
  "add_reservation st a k =
     st\<lparr>connections_reservations :=
          dict_set parts (connections_reservations st) a (reservations_at st a + k)\<rparr>"

definition acquire_from_pool :: "'a pool_scheme \<Rightarrow> address \<Rightarrow> conn_id option \<times> 'a pool_scheme" where
  "acquire_from_pool st a =
     (case find (\<lambda>c. \<not> in_use (heap st ! c)) (conns_at st a) of
        None \<Rightarrow> (None, st)
      | Some c \<Rightarrow>
          (Some c, st\<lparr>heap := (heap st)[c := (heap st ! c)\<lparr>pool_set := True, in_use := True\<rparr>]\<rparr>))"

text \<open>The \<open>health_check\<close> closure of \<open>_acquire\<close>.\<close>

definition health_check ::
  "env \<Rightarrow> 'a pool_scheme \<Rightarrow> conn_id \<Rightarrow> real option \<Rightarrow> deadline \<Rightarrow> (exn + bool) \<times> 'a pool_scheme" where
  "health_check env st c liveness_check_timeout dl =
     (let b = bolt (heap st ! c) in
      if closed_f b \<or> defunct_f b \<or> stale_f b then (Inr False, st)
      else
        (case liveness_check_timeout of
           None \<Rightarrow> (Inr True, st)
         | Some t \<Rightarrow>
             if is_idle_for b t (now st) then
               (case reset env st c of
                  (None, st1) \<Rightarrow> (Inr True, st1)
                | (Some e, st1) \<Rightarrow>
                    if isinstance env e OSError \<or> isinstance env e ServiceUnavailable
                       \<or> isinstance env e SessionExpired
                    then (Inr False, st1)
                    else (Inl e, st1))
             else (Inr True, st)))"

text \<open>\<open>self.connections.get(address, []).remove(connection)\<close>, the \<open>ValueError\<close> ignored.\<close>

definition remove_conn :: "'a pool_scheme \<Rightarrow> address \<Rightarrow> conn_id \<Rightarrow> 'a pool_scheme" where
  "remove_conn st a c =
     (case dict_get parts (connections st) a of
        None \<Rightarrow> st
      | Some l \<Rightarrow> st\<lparr>connections := dict_set parts (connections st) a (remove1 c l)\<rparr>)"

text \<open>Frame facts used for the termination of the scan below.\<close>

lemma in_use_set_bolt: "in_use (heap (set_bolt c b st) ! k) = in_use (heap st ! k)"
  by (cases "c < length (heap st)")
     (auto simp: set_bolt_def nth_list_update list_update_beyond not_less)

lemma reset_frame:
  "reset env st c = (r, st1) \<Longrightarrow>
     connections st1 = connections st \<and> (\<forall>k. in_use (heap st1 ! k) = in_use (heap st ! k))"
  by (auto simp: reset_def io_step_def log_event_def in_use_set_bolt)
     (auto simp: set_bolt_def)

lemma health_check_frame:
  "health_check env st c lct dl = (r, st1) \<Longrightarrow>
     connections st1 = connections st \<and> (\<forall>k. in_use (heap st1 ! k) = in_use (heap st ! k))"
  by (auto simp: health_check_def Let_def split: if_splits option.splits prod.splits
      dest: reset_frame)

lemma close_conn_frame:
  "connections (close_conn env c st) = connections st \<and>
   (\<forall>k. in_use (heap (close_conn env c st) ! k) = in_use (heap st ! k))"
  by (auto simp: close_conn_def io_step_def log_event_def in_use_set_bolt)
     (auto simp: set_bolt_def)

definition idle_count :: "'a pool_scheme \<Rightarrow> address \<Rightarrow> nat" where
  "idle_count st a = length (filter (\<lambda>c. \<not> in_use (heap st ! c)) (conns_at st a))"

lemma dict_get_set_same: "dict_get kf (dict_set kf d a v) a = Some v"
  by (induction kf d a v rule: dict_set.induct) auto

lemma find_Some_mem: "find P xs = Some x \<Longrightarrow> x \<in> set xs \<and> P x"
  by (induction xs) (auto split: if_splits)

lemma filter_remove1_less:
  assumes "c \<in> set l" "P c" "\<And>x. Q x \<Longrightarrow> P x" "\<And>x. x \<noteq> c \<Longrightarrow> Q x = P x"
  shows "length (filter Q (remove1 c l)) < length (filter P l)"
  using assms(1)
proof (induction l)
  case Nil
  then show ?case by simp
next
  case (Cons x l)
  have le: "length (filter Q xs) \<le> length (filter P xs)" for xs
    by (induction xs) (auto dest: assms(3))
  show ?case
  proof (cases "x = c")
    case True
    then show ?thesis using le [of l] assms(2) by simp
  next
    case False
    then show ?thesis using Cons assms(4) [of x] by auto
  qed
qed

lemma checked_decreases:
  assumes "acquire_from_pool st a = (Some c, st1)"
    and "health_check env st1 c lct dl = (r, st2)"
  shows "idle_count (remove_conn (close_conn env c st2) a c) a < idle_count st a"
proof -
  from assms(1) have f: "find (\<lambda>c. \<not> in_use (heap st ! c)) (conns_at st a) = Some c"
    and st1: "st1 = st\<lparr>heap := (heap st)[c := (heap st ! c)\<lparr>pool_set := True, in_use := True\<rparr>]\<rparr>"
    by (auto simp: acquire_from_pool_def split: option.splits)
  from find_Some_mem [OF f] have mem: "c \<in> set (conns_at st a)" and idle: "\<not> in_use (heap st ! c)"
    by simp_all
  from mem obtain l where l: "dict_get parts (connections st) a = Some l" "conns_at st a = l"
    by (cases "dict_get parts (connections st) a") (auto simp: conns_at_def)
  let ?st3 = "close_conn env c st2"
  have conn3: "connections ?st3 = connections st"
    using health_check_frame [OF assms(2)] close_conn_frame [of env c st2] st1 by simp
  have use3: "in_use (heap ?st3 ! k) = in_use (heap st1 ! k)" for k
    using health_check_frame [OF assms(2)] close_conn_frame [of env c st2] by simp
  have use1: "k \<noteq> c \<Longrightarrow> in_use (heap st1 ! k) = in_use (heap st ! k)" for k
    by (simp add: st1)
  have use1c: "\<not> in_use (heap st1 ! k) \<Longrightarrow> \<not> in_use (heap st ! k)" for k
    using idle
    by (cases "c < length (heap st)")
       (auto simp: st1 nth_list_update list_update_beyond not_less split: if_splits)
  have "conns_at (remove_conn ?st3 a c) a = remove1 c l"
    using l conn3 by (simp add: remove_conn_def conns_at_def dict_get_set_same)
  moreover have "in_use (heap (remove_conn ?st3 a c) ! k) = in_use (heap ?st3 ! k)" for k
    by (simp add: remove_conn_def split: option.splits)
  ultimately have "idle_count (remove_conn ?st3 a c) a
      = length (filter (\<lambda>k. \<not> in_use (heap st1 ! k)) (remove1 c l))"
    by (simp add: idle_count_def use3)
  also have "\<dots> < length (filter (\<lambda>k. \<not> in_use (heap st ! k)) l)"
    using mem idle l use1 use1c by (intro filter_remove1_less) auto
  finally show ?thesis by (simp add: idle_count_def l)
qed

text \<open>
  \<open>_acquire_from_pool_checked\<close>: every round either returns or takes one idle
  connection out of the pool, so the scan ends.
\<close>

function acquire_from_pool_checked ::
  "env \<Rightarrow> 'a pool_scheme \<Rightarrow> address \<Rightarrow> real option \<Rightarrow> deadline
     \<Rightarrow> (exn + conn_id option) \<times> 'a pool_scheme" where
  "acquire_from_pool_checked env st a lct dl =
     (if expired dl (now st) then (Inr None, st)
      else
        (case acquire_from_pool st a of
           (None, st1) \<Rightarrow> (Inr None, st1)
         | (Some c, st1) \<Rightarrow>
             (case health_check env st1 c lct dl of
                (Inl e, st2) \<Rightarrow> (Inl e, st2)
              | (Inr True, st2) \<Rightarrow> (Inr (Some c), st2)
              | (Inr False, st2) \<Rightarrow>
                  acquire_from_pool_checked env (remove_conn (close_conn env c st2) a c) a lct dl)))"
  by pat_completeness auto
termination
  by (relation "measure (\<lambda>(env, st, a, lct, dl). idle_count st a)")
     (auto intro: checked_decreases [OF sym sym])

declare acquire_from_pool_checked.simps [simp del]

text \<open>
  \<open>_acquire_new_later\<close>. The closure it returns is \<open>connection_creator\<close> below; the
  model returns whether the closure was handed out.
\<close>

definition acquire_new_later :: "'a pool_scheme \<Rightarrow> address \<Rightarrow> bool \<times> 'a pool_scheme" where
  "acquire_new_later st a =
     (let max_pool_size = max_connection_pool_size st;
          infinite_pool_size = (case max_pool_size of Unlimited \<Rightarrow> True | Limit m \<Rightarrow> m < 0);
          st1 = touch_connections st a;
          pool_size = int (length (conns_at st1 a)) + reservations_at st1 a;
          can_create_new_connection =
            (infinite_pool_size
             \<or> (case max_pool_size of Unlimited \<Rightarrow> True | Limit m \<Rightarrow> pool_size < m));
          st2 = add_reservation st1 a 1
      in (can_create_new_connection, st2))"

text \<open>
  \<open>connection_creator\<close>. \<open>deact\<close> is the \<open>deactivate\<close> method of the pool at hand: the
  routing pool overrides it.
\<close>

definition connection_creator ::
  "env \<Rightarrow> (env \<Rightarrow> 'a pool_scheme \<Rightarrow> address \<Rightarrow> 'a pool_scheme) \<Rightarrow> 'a pool_scheme \<Rightarrow> address
     \<Rightarrow> (exn + conn_id) \<times> 'a pool_scheme" where
  "connection_creator env deact st a =
     (let st1 = io_step env (log_event (EvOpen a) st) in
      case io_error env (tick st) of
        Some e \<Rightarrow>
          (let st2 = (if isinstance env e ServiceUnavailable then deact env st1 a else st1)
           in (Inl e, add_reservation st2 a (- 1)))
      | None \<Rightarrow>
          (let c = length (heap st1);
               st2 = st1\<lparr>heap := heap st1 @
                        [\<lparr>bolt = bolt_after env (tick st), in_use = True, pool_set = True\<rparr>]\<rparr>;
               st3 = add_reservation st2 a (- 1);
               st4 = touch_connections st3 a;
               st5 = st4\<lparr>connections := dict_set parts (connections st4) a (conns_at st4 a @ [c])\<rparr>
           in (Inr c, st5)))"

text \<open>\<open>self.cond.wait(timeout)\<close>: without a timeout the wait only ends by a notification.\<close>

definition cond_wait :: "env \<Rightarrow> 'a pool_scheme \<Rightarrow> real option \<Rightarrow> bool \<times> 'a pool_scheme" where
  "cond_wait env st timeout =
     ((case timeout of None \<Rightarrow> True | Some t \<Rightarrow> wait_result env (tick st)),
      io_step env (log_event EvWait st))"

text \<open>
  \<open>_acquire\<close>. The loop goes round once more after every notified wait, so it need not
  end: the first argument bounds the rounds, and \<open>None\<close> means the bound was reached.
\<close>

fun IOPool_acquire ::
  "nat \<Rightarrow> env \<Rightarrow> (env \<Rightarrow> 'a pool_scheme \<Rightarrow> address \<Rightarrow> 'a pool_scheme) \<Rightarrow> 'a pool_scheme \<Rightarrow> address
     \<Rightarrow> deadline \<Rightarrow> real option \<Rightarrow> ((exn + conn_id) \<times> 'a pool_scheme) option" where
  "IOPool_acquire 0 env deact st a dl lct = None"
| "IOPool_acquire (Suc n) env deact st a dl lct =
     (case acquire_from_pool_checked env st a lct dl of
        (Inl e, st1) \<Rightarrow> Some (Inl e, st1)
      | (Inr (Some c), st1) \<Rightarrow> Some (Inr c, st1)
      | (Inr None, st1) \<Rightarrow>
          (case acquire_new_later st1 a of
             (True, st2) \<Rightarrow> Some (connection_creator env deact st2 a)
           | (False, st2) \<Rightarrow>
               (let timeout = to_timeout dl (now st2) in
                if timeout = Some 0 then
                  Some (Inl (raise_new ClientError
                    ''failed to obtain a connection from the pool within the timeout''), st2)
                else
                  (case cond_wait env st2 timeout of
                     (False, st3) \<Rightarrow>
                       Some (Inl (raise_new ClientError
                         ''failed to obtain a connection from the pool within the timeout''), st3)
                   | (True, st3) \<Rightarrow> IOPool_acquire n env deact st3 a dl lct))))"

text \<open>\<open>connection.in_use = False\<close>.\<close>

definition clear_in_use :: "conn_id \<Rightarrow> 'a pool_scheme \<Rightarrow> 'a pool_scheme" where
  "clear_in_use c st = st\<lparr>heap := (heap st)[c := (heap st ! c)\<lparr>in_use := False\<rparr>]\<rparr>"

text \<open>\<open>release(*connections)\<close>: the loop over the connections, then \<open>notify_all\<close>.\<close>

fun release_loop :: "env \<Rightarrow> 'a pool_scheme \<Rightarrow> conn_id list \<Rightarrow> exn option \<times> 'a pool_scheme" where
  "release_loop env st [] = (None, st)"
| "release_loop env st (c # cs) =
     (let b = bolt (heap st ! c) in
      if \<not> (defunct_f b \<or> closed_f b \<or> is_reset b) then
        (case reset env st c of
           (Some e, st1) \<Rightarrow>
             if isinstance env e Neo4jError \<or> isinstance env e DriverError
                \<or> isinstance env e BoltError
             then release_loop env (clear_in_use c st1) cs
             else (Some e, st1)
         | (None, st1) \<Rightarrow> release_loop env (clear_in_use c st1) cs)
      else release_loop env (clear_in_use c st) cs)"

definition release :: "env \<Rightarrow> 'a pool_scheme \<Rightarrow> conn_id list \<Rightarrow> (exn + unit) \<times> 'a pool_scheme" where
  "release env st cs =
     (case release_loop env st cs of
        (Some e, st1) \<Rightarrow> (Inl e, st1)
      | (None, st1) \<Rightarrow> (Inr (), log_event EvNotifyAll st1))"

definition in_use_connection_count :: "'a pool_scheme \<Rightarrow> address \<Rightarrow> nat \<times> 'a pool_scheme" where
  "in_use_connection_count st a =
     (let st1 = touch_connections st a
      in (length (filter (\<lambda>c. in_use (heap st1 ! c)) (conns_at st1 a)), st1))"

definition IOPool_deactivate :: "env \<Rightarrow> 'a pool_scheme \<Rightarrow> address \<Rightarrow> 'a pool_scheme" where
  "IOPool_deactivate env st a =
     (let st0 = touch_connections st a;
          conns = conns_at st0 a;
          closable_connections = filter (\<lambda>c. \<not> in_use (heap st0 ! c)) conns;
          st1 = st0\<lparr>connections :=
                  dict_set parts (connections st0) a (fold remove1 closable_connections conns)\<rparr>;
          st2 = fold (close_conn env) closable_connections st1
      in if conns_at st2 a = []
         then st2\<lparr>connections := dict_del parts (connections st2) a\<rparr>
         else st2)"

definition IOPool_close :: "env \<Rightarrow> 'a pool_scheme \<Rightarrow> 'a pool_scheme" where
  "IOPool_close env st =
     (fold (\<lambda>(a, cs) s. fold (close_conn env) cs s) (connections st) st)\<lparr>connections := []\<rparr>"


section \<open>Routing tables\<close>

text \<open>
  Modelled from the spec: the \<open>RoutingTable\<close> class of \<open>neo4j/_routing.py\<close>, which is not
  among the sources. A table holds the ordered sets of routers, readers and writers,
  the TTL, the instant of its last update, the initial routers it was seeded with and
  the flag \<open>initialized_without_writers\<close>. It is fresh for an access mode when
  \<open>now < created + ttl\<close> and the readers (read-only) or the writers are not empty; it
  should be purged when \<open>now > created + ttl + purge_delay\<close>; an update replaces the
  three sets and the TTL by those the server reported, records whether there are
  writers and restarts the clock of the table; parsing a routing answer sorts the
  reported addresses by role.
\<close>

record routing_table =
  rt_database :: pyval
  initial_routers :: "address list"
  routers :: "address list"
  readers :: "address list"
  writers :: "address list"
  initialized_without_writers :: bool
  last_updated_time :: real
  ttl :: real

definition RoutingTable_new ::
  "real \<Rightarrow> pyval \<Rightarrow> address list \<Rightarrow> address list \<Rightarrow> address list \<Rightarrow> real \<Rightarrow> routing_table" where
  "RoutingTable_new t_now database rs rds ws t =
     \<lparr>rt_database = database,
      initial_routers = ordered_set rs,
      routers = ordered_set rs,
      readers = ordered_set rds,
      writers = ordered_set ws,
      initialized_without_writers = (ordered_set ws = []),
      last_updated_time = t_now,
      ttl = t\<rparr>"

definition addresses_of_role :: "role \<Rightarrow> (role \<times> address list) list \<Rightarrow> address list" where
  "addresses_of_role r svs = concat (map snd (filter (\<lambda>sv. fst sv = r) svs))"

definition parse_routing_info ::
  "real \<Rightarrow> pyval \<Rightarrow> (role \<times> address list) list \<Rightarrow> real \<Rightarrow> routing_table" where
  "parse_routing_info t_now database svs t =
     RoutingTable_new t_now database (addresses_of_role ROUTE svs)
       (addresses_of_role READ svs) (addresses_of_role WRITE svs) t"

definition is_fresh :: "routing_table \<Rightarrow> bool \<Rightarrow> real \<Rightarrow> bool" where
  "is_fresh rt readonly t_now =
     (t_now < last_updated_time rt + ttl rt
      \<and> (if readonly then readers rt \<noteq> [] else writers rt \<noteq> []))"

definition should_be_purged_from_memory :: "routing_table \<Rightarrow> real \<Rightarrow> real \<Rightarrow> bool" where
  "should_be_purged_from_memory rt purge_delay t_now =
     (last_updated_time rt + ttl rt + purge_delay < t_now)"

definition update_table :: "routing_table \<Rightarrow> routing_table \<Rightarrow> real \<Rightarrow> routing_table" where
  "update_table rt new_routing_table t_now =
     rt\<lparr>routers := routers new_routing_table,
        readers := readers new_routing_table,
        writers := writers new_routing_table,
        initialized_without_writers := (writers new_routing_table = []),
        last_updated_time := t_now,
        ttl := ttl new_routing_table\<rparr>"

definition servers_of :: "routing_table \<Rightarrow> address list" where
  "servers_of rt = routers rt @ writers rt @ readers rt"

section \<open>The routing pool (AsyncNeo4jPool)\<close>

text \<open>
  The routing pool adds the routing tables, a dictionary keyed by database name, to the
  state of the pool, with the configuration it reads: the default database, the timeout of a routing
  update and the purge delay. The model follows one task: the reentrant refresh lock is
  then free or held by the caller, so \<open>_refresh_lock_deadline\<close> always gets it.
\<close>

record neo4j_pool = pool +
  routing_tables :: "pyval \<rightharpoonup> routing_table"
  default_database :: pyval
  update_routing_table_timeout :: timeout_arg
  routing_table_purge_delay :: real

abbreviation READ_ACCESS :: pyval where "READ_ACCESS \<equiv> PStr ''READ''"
abbreviation WRITE_ACCESS :: pyval where "WRITE_ACCESS \<equiv> PStr ''WRITE''"

definition table_of :: "neo4j_pool \<Rightarrow> pyval \<Rightarrow> routing_table option" where
  "table_of st database = routing_tables st database"

definition set_table :: "neo4j_pool \<Rightarrow> pyval \<Rightarrow> routing_table \<Rightarrow> neo4j_pool" where
  "set_table st database rt =
     st\<lparr>routing_tables := (routing_tables st)(database \<mapsto> rt)\<rparr>"

definition get_default_database_initial_router_addresses :: "neo4j_pool \<Rightarrow> exn + address list" where
  "get_default_database_initial_router_addresses st =
     (case table_of st (default_database st) of
        None \<Rightarrow> Inl (raise_new KeyError ''routing_tables'')
      | Some rt \<Rightarrow> Inr (initial_routers rt))"

definition first_initial_routing_address :: "neo4j_pool \<Rightarrow> exn + address" where
  "first_initial_routing_address st =
     (case get_default_database_initial_router_addresses st of
        Inl e \<Rightarrow> Inl e
      | Inr [] \<Rightarrow> Inl (raise_new IndexError ''list index out of range'')
      | Inr (a # _) \<Rightarrow> Inr a)"

definition get_or_create_routing_table ::
  "neo4j_pool \<Rightarrow> pyval \<Rightarrow> (exn + routing_table) \<times> neo4j_pool" where
  "get_or_create_routing_table st database =
     (case table_of st database of
        Some rt \<Rightarrow> (Inr rt, st)
      | None \<Rightarrow>
          (case get_default_database_initial_router_addresses st of
             Inl e \<Rightarrow> (Inl e, st)
           | Inr rs \<Rightarrow>
               (let rt = RoutingTable_new (now st) database rs [] [] 0
                in (Inr rt, set_table st database rt))))"

text \<open>The override of \<open>deactivate\<close>.\<close>

definition Neo4jPool_deactivate :: "env \<Rightarrow> neo4j_pool \<Rightarrow> address \<Rightarrow> neo4j_pool" where
  "Neo4jPool_deactivate env st a =
     IOPool_deactivate env
       (st\<lparr>routing_tables :=
            (\<lambda>database.
               map_option (\<lambda>rt. rt\<lparr>routers := discard (routers rt) a,
                                     readers := discard (readers rt) a,
                                     writers := discard (writers rt) a\<rparr>)
                 (routing_tables st database))\<rparr>) a"

definition on_write_failure :: "neo4j_pool \<Rightarrow> address \<Rightarrow> neo4j_pool" where
  "on_write_failure st a =
     st\<lparr>routing_tables :=
          (\<lambda>database.
             map_option (\<lambda>rt. rt\<lparr>writers := discard (writers rt) a\<rparr>)
               (routing_tables st database))\<rparr>"

text \<open>\<open>cx.route(...)\<close>: an awaited call answered by the environment.\<close>

definition route :: "env \<Rightarrow> neo4j_pool \<Rightarrow> conn_id \<Rightarrow> (exn + routing_record list) \<times> neo4j_pool" where
  "route env st cx =
     ((case io_error env (tick st) of
         Some e \<Rightarrow> Inl e
       | None \<Rightarrow> Inr (route_result env (tick st))),
      io_step env (set_bolt cx (bolt_after env (tick st)) (log_event (EvRoute cx) st)))"

definition fetch_routing_info ::
  "nat \<Rightarrow> env \<Rightarrow> neo4j_pool \<Rightarrow> address \<Rightarrow> deadline
     \<Rightarrow> ((exn + routing_record list) \<times> neo4j_pool) option" where
  "fetch_routing_info n env st a dl =
     (case IOPool_acquire n env Neo4jPool_deactivate st a dl None of
        None \<Rightarrow> None
      | Some (Inl e, st1) \<Rightarrow> Some (Inl e, st1)
      | Some (Inr cx, st1) \<Rightarrow>
          (case route env st1 cx of
             (r, st2) \<Rightarrow>
               (case release env st2 [cx] of
                  (Inl e, st3) \<Rightarrow> Some (Inl e, st3)
                | (Inr u, st3) \<Rightarrow> Some (r, st3))))"

text \<open>
  What \<open>fetch_routing_table\<close> makes of the outcome of \<open>fetch_routing_info\<close>: the handlers
  in their order, then the parsing and the two counts.
\<close>

definition routing_table_of_info ::
  "env \<Rightarrow> real \<Rightarrow> pyval \<Rightarrow> exn + routing_record list \<Rightarrow> exn + routing_table option" where
  "routing_table_of_info env t_now database outcome =
     (case outcome of
        Inl e \<Rightarrow>
          if isinstance env e Neo4jError then
            (if is_fatal_during_discovery env e then Inl e else Inr None)
          else if isinstance env e ServiceUnavailable \<or> isinstance env e SessionExpired
            then Inr None
          else Inl e
      | Inr [] \<Rightarrow> Inr None
      | Inr (info # _) \<Rightarrow>
          (let new_routing_table =
                 parse_routing_info t_now
                   (case rec_db info of Some d \<Rightarrow> d | None \<Rightarrow> database)
                   (servers info) (rec_ttl info);
               num_routers = length (routers new_routing_table);
               num_readers = length (readers new_routing_table)
           in if num_routers = 0 then Inr None
              else if num_readers = 0 then Inr None
              else Inr (Some new_routing_table)))"

fun outcome_of :: "exn + routing_table option \<Rightarrow> fetch_outcome" where
  "outcome_of (Inl e) = Raised e"
| "outcome_of (Inr None) = NoTable"
| "outcome_of (Inr (Some rt)) = GotTable (rt_database rt)"

definition fetch_routing_table ::
  "nat \<Rightarrow> env \<Rightarrow> neo4j_pool \<Rightarrow> address \<Rightarrow> deadline \<Rightarrow> pyval
     \<Rightarrow> ((exn + routing_table option) \<times> neo4j_pool) option" where
  "fetch_routing_table n env st a dl database =
     (case fetch_routing_info n env st a dl of
        None \<Rightarrow> None
      | Some (outcome, st1) \<Rightarrow>
          (let res = routing_table_of_info env (now st1) database outcome
           in Some (res, log_event (EvFetch a (outcome_of res)) st1)))"

text \<open>
  \<open>_update_routing_table_from\<close>. The inner loop runs over the addresses a router
  resolves to; its result is \<open>Some b\<close> when the method returns \<open>b\<close> from inside the
  loop and \<open>None\<close> when the addresses are used up. \<open>callback\<close> says whether a
  \<open>database_callback\<close> was passed.
\<close>

fun update_from_addresses ::
  "nat \<Rightarrow> env \<Rightarrow> neo4j_pool \<Rightarrow> address list \<Rightarrow> pyval \<Rightarrow> deadline \<Rightarrow> bool
     \<Rightarrow> ((exn + bool option) \<times> neo4j_pool) option" where
  "update_from_addresses n env st [] database dl callback = Some (Inr None, st)"
| "update_from_addresses n env st (a # as) database dl callback =
     (if expired dl (now st) then Some (Inr (Some False), st)
      else
        (case fetch_routing_table n env st a dl database of
           None \<Rightarrow> None
         | Some (Inl e, st1) \<Rightarrow> Some (Inl e, st1)
         | Some (Inr None, st1) \<Rightarrow> update_from_addresses n env st1 as database dl callback
         | Some (Inr (Some new_routing_table), st1) \<Rightarrow>
             (let new_database = rt_database new_routing_table in
              case get_or_create_routing_table st1 new_database of
                (Inl e, st2) \<Rightarrow> Some (Inl e, st2)
              | (Inr old_routing_table, st2) \<Rightarrow>
                  (let st3 = set_table st2 new_database
                               (update_table old_routing_table new_routing_table (now st2));
                       st4 = log_event (EvRoutingUpdate a new_database) st3;
                       st5 = (if callback then log_event (EvDatabaseCallback new_database) st4
                              else st4)
                   in Some (Inr (Some True), st5)))))"

fun update_routing_table_from ::
  "nat \<Rightarrow> env \<Rightarrow> neo4j_pool \<Rightarrow> address list \<Rightarrow> pyval \<Rightarrow> deadline \<Rightarrow> bool
     \<Rightarrow> ((exn + bool) \<times> neo4j_pool) option" where
  "update_routing_table_from n env st [] database dl callback = Some (Inr False, st)"
| "update_routing_table_from n env st (router # rs) database dl callback =
     (case update_from_addresses n env st (resolve env router) database dl callback of
        None \<Rightarrow> None
      | Some (Inl e, st1) \<Rightarrow> Some (Inl e, st1)
      | Some (Inr (Some b), st1) \<Rightarrow> Some (Inr b, st1)
      | Some (Inr None, st1) \<Rightarrow>
          update_routing_table_from n env (Neo4jPool_deactivate env st1 router) rs database dl
            callback)"

text \<open>
  \<open>update_routing_table\<close>. \<open>existing_routers\<close> is a Python \<open>set\<close>: the order in which
  the difference \<open>existing_routers - {R0}\<close> is iterated is the environment's
  \<open>set_order\<close>. \<open>self.first_initial_routing_address\<close> is read anew at each use.
\<close>

definition update_routing_table ::
  "nat \<Rightarrow> env \<Rightarrow> neo4j_pool \<Rightarrow> pyval \<Rightarrow> timeout_arg \<Rightarrow> bool
     \<Rightarrow> ((exn + unit) \<times> neo4j_pool) option" where
  "update_routing_table n env st database timeout callback =
     (case merge_deadlines_and_timeouts (now st) timeout (update_routing_table_timeout st) of
        Inl e \<Rightarrow> Some (Inl e, st)
      | Inr dl \<Rightarrow>
     (case get_or_create_routing_table st database of
        (Inl e, st0) \<Rightarrow> Some (Inl e, st0)
      | (Inr routing_table, st0) \<Rightarrow>
     (let existing_routers = routers routing_table;
          prefer_initial_routing_address = initialized_without_writers routing_table
      in
     (case (if prefer_initial_routing_address then
              (case first_initial_routing_address st0 of
                 Inl e \<Rightarrow> Some (Inl e, st0)
               | Inr r0 \<Rightarrow> update_routing_table_from n env st0 [r0] database dl callback)
            else Some (Inr False, st0)) of
        None \<Rightarrow> None
      | Some (Inl e, st1) \<Rightarrow> Some (Inl e, st1)
      | Some (Inr True, st1) \<Rightarrow> Some (Inr (), st1)
      | Some (Inr False, st1) \<Rightarrow>
     (case first_initial_routing_address st1 of
        Inl e \<Rightarrow> Some (Inl e, st1)
      | Inr r0 \<Rightarrow>
     (case update_routing_table_from n env st1 (set_order env (discard existing_routers r0))
             database dl callback of
        None \<Rightarrow> None
      | Some (Inl e, st2) \<Rightarrow> Some (Inl e, st2)
      | Some (Inr True, st2) \<Rightarrow> Some (Inr (), st2)
      | Some (Inr False, st2) \<Rightarrow>
     (case (if \<not> prefer_initial_routing_address then
              (case first_initial_routing_address st2 of
                 Inl e \<Rightarrow> Some (Inl e, st2)
               | Inr r0 \<Rightarrow> update_routing_table_from n env st2 [r0] database dl callback)
            else Some (Inr False, st2)) of
        None \<Rightarrow> None
      | Some (Inl e, st3) \<Rightarrow> Some (Inl e, st3)
      | Some (Inr True, st3) \<Rightarrow> Some (Inr (), st3)
      | Some (Inr False, st3) \<Rightarrow>
          Some (Inl (raise_new ServiceUnavailable ''Unable to retrieve routing information''),
                st3))))))))"

text \<open>\<open>update_connection_pool\<close>: the loop over a snapshot of the pool's keys.\<close>

fun deactivate_unlisted ::
  "env \<Rightarrow> neo4j_pool \<Rightarrow> address list \<Rightarrow> address list \<Rightarrow> (exn + unit) \<times> neo4j_pool" where
  "deactivate_unlisted env st svs [] = (Inr (), st)"
| "deactivate_unlisted env st svs (a # as) =
     (case unresolved a of
        Inl e \<Rightarrow> (Inl e, st)
      | Inr u \<Rightarrow>
          if \<not> contains svs u
          then deactivate_unlisted env (IOPool_deactivate env st a) svs as
          else deactivate_unlisted env st svs as)"

definition update_connection_pool :: "env \<Rightarrow> neo4j_pool \<Rightarrow> pyval \<Rightarrow> (exn + unit) \<times> neo4j_pool" where
  "update_connection_pool env st database =
     (case get_or_create_routing_table st database of
        (Inl e, st1) \<Rightarrow> (Inl e, st1)
      | (Inr routing_table, st1) \<Rightarrow>
          deactivate_unlisted env st1 (servers_of routing_table) (map fst (connections st1)))"

text \<open>The purge loop at the end of \<open>ensure_routing_table_is_fresh\<close>.\<close>

definition purge_routing_tables :: "neo4j_pool \<Rightarrow> neo4j_pool" where
  "purge_routing_tables st =
     st\<lparr>routing_tables :=
          (\<lambda>database.
             case routing_tables st database of
               None \<Rightarrow> None
             | Some rt \<Rightarrow>
                 if should_be_purged_from_memory rt (routing_table_purge_delay st) (now st)
                    \<and> database \<noteq> default_database st
                 then None
                 else Some rt)\<rparr>"

definition ensure_routing_table_is_fresh ::
  "nat \<Rightarrow> env \<Rightarrow> neo4j_pool \<Rightarrow> pyval \<Rightarrow> pyval \<Rightarrow> deadline \<Rightarrow> bool
     \<Rightarrow> ((exn + bool) \<times> neo4j_pool) option" where
  "ensure_routing_table_is_fresh n env st access_mode database dl callback =
     (case get_or_create_routing_table st database of
        (Inl e, st1) \<Rightarrow> Some (Inl e, st1)
      | (Inr routing_table, st1) \<Rightarrow>
          if is_fresh routing_table (access_mode = READ_ACCESS) (now st1)
          then Some (Inr False, st1)
          else
            (case update_routing_table n env st1 database (TDeadline dl) callback of
               None \<Rightarrow> None
             | Some (Inl e, st2) \<Rightarrow> Some (Inl e, st2)
             | Some (Inr u, st2) \<Rightarrow>
                 (case update_connection_pool env st2 database of
                    (Inl e, st3) \<Rightarrow> Some (Inl e, st3)
                  | (Inr u, st3) \<Rightarrow> Some (Inr True, purge_routing_tables st3))))"

text \<open>
  \<open>_select_address\<close>: the addresses of the mode, grouped by their number of connections
  in use; \<open>random.choice\<close> among those with the least.
\<close>

fun usage_counts :: "neo4j_pool \<Rightarrow> address list \<Rightarrow> (address \<times> nat) list \<times> neo4j_pool" where
  "usage_counts st [] = ([], st)"
| "usage_counts st (a # as) =
     (case in_use_connection_count st a of
        (k, st1) \<Rightarrow> (case usage_counts st1 as of (ks, st2) \<Rightarrow> ((a, k) # ks, st2)))"

definition select_address ::
  "env \<Rightarrow> neo4j_pool \<Rightarrow> pyval \<Rightarrow> pyval \<Rightarrow> (exn + address) \<times> neo4j_pool" where
  "select_address env st access_mode database =
     (case table_of st database of
        None \<Rightarrow> (Inl (raise_new KeyError ''routing_tables''), st)
      | Some rt \<Rightarrow>
          (let addresses = (if access_mode = READ_ACCESS then readers rt else writers rt) in
           case usage_counts st addresses of
             (addresses_by_usage, st1) \<Rightarrow>
               if addresses_by_usage = [] then
                 (if access_mode = READ_ACCESS
                  then (Inl (raise_new ReadServiceUnavailable
                          ''No read service currently available''), st1)
                  else (Inl (raise_new WriteServiceUnavailable
                          ''No write service currently available''), st1))
               else
                 (let least = Min (set (map snd addresses_by_usage));
                      candidates = map fst (filter (\<lambda>p. snd p = least) addresses_by_usage)
                  in (Inr (candidates ! (choice_index env (tick st1) mod length candidates)),
                      st1\<lparr>tick := Suc (tick st1)\<rparr>))))"

text \<open>The routing pool's \<open>acquire\<close>: the three checks, then the refresh, then the loop.\<close>

definition falsy :: "timeout_arg \<Rightarrow> bool" where
  "falsy x = (case x of TNone \<Rightarrow> True | TSeconds t \<Rightarrow> t = 0 | TDeadline d \<Rightarrow> False)"

definition acquire_checks :: "pyval \<Rightarrow> timeout_arg \<Rightarrow> timeout_arg \<Rightarrow> exn option" where
  "acquire_checks access_mode timeout acquisition_timeout =
     (if access_mode \<noteq> WRITE_ACCESS \<and> access_mode \<noteq> READ_ACCESS then
        Some (raise_new ClientError ''Non valid 'access_mode' '')
      else if falsy timeout then
        Some (raise_new ClientError '''timeout' must be a float larger than 0'')
      else if falsy acquisition_timeout then
        Some (raise_new ClientError '''acquisition_timeout' must be a float larger than 0'')
      else None)"

definition mode_name :: "pyval \<Rightarrow> string" where
  "mode_name m = (case m of PStr s \<Rightarrow> s | PNone \<Rightarrow> ''None'' | PInt i \<Rightarrow> ''int'')"

fun acquire_loop ::
  "nat \<Rightarrow> env \<Rightarrow> neo4j_pool \<Rightarrow> pyval \<Rightarrow> pyval \<Rightarrow> deadline \<Rightarrow> real option
     \<Rightarrow> ((exn + conn_id) \<times> neo4j_pool) option" where
  "acquire_loop 0 env st access_mode database dl lct = None"
| "acquire_loop (Suc n) env st access_mode database dl lct =
     (case select_address env st access_mode database of
        (Inl err, st1) \<Rightarrow>
          if isinstance env err ReadServiceUnavailable \<or> isinstance env err WriteServiceUnavailable
          then Some (Inl (Exn SessionExpired
                 (''Failed to obtain connection towards '' @ [CHR 0x27] @ mode_name access_mode
                    @ [CHR 0x27] @ '' server.'') (Some err)), st1)
          else Some (Inl err, st1)
      | (Inr a, st1) \<Rightarrow>
          (case IOPool_acquire n env Neo4jPool_deactivate st1 a dl lct of
             None \<Rightarrow> None
           | Some (Inl e, st2) \<Rightarrow>
               if isinstance env e ServiceUnavailable \<or> isinstance env e SessionExpired
               then acquire_loop n env (Neo4jPool_deactivate env st2 a) access_mode database dl lct
               else Some (Inl e, st2)
           | Some (Inr c, st2) \<Rightarrow> Some (Inr c, st2)))"

definition Neo4jPool_acquire ::
  "nat \<Rightarrow> env \<Rightarrow> neo4j_pool \<Rightarrow> pyval \<Rightarrow> timeout_arg \<Rightarrow> timeout_arg
     \<Rightarrow> pyval \<Rightarrow> real option \<Rightarrow> ((exn + conn_id) \<times> neo4j_pool) option" where
  "Neo4jPool_acquire n env st access_mode timeout acquisition_timeout database lct =
     (case acquire_checks access_mode timeout acquisition_timeout of
        Some e \<Rightarrow> Some (Inl e, st)
      | None \<Rightarrow>
     (case from_timeout_or_deadline (now st) timeout of
        Inl e \<Rightarrow> Some (Inl e, st)
      | Inr dl \<Rightarrow>
     (case ensure_routing_table_is_fresh n env st access_mode database dl False of
        None \<Rightarrow> None
      | Some (Inl e, st1) \<Rightarrow> Some (Inl e, st1)
      | Some (Inr b, st1) \<Rightarrow>
     (case from_timeout_or_deadline (now st1) acquisition_timeout of
        Inl e \<Rightarrow> Some (Inl e, st1)
      | Inr dl2 \<Rightarrow>
          acquire_loop n env st1 access_mode database (merge_deadlines dl dl2) lct))))"

section \<open>The managed transaction loop (neo4j/\_async/work/session.py)\<close>

text \<open>
  One attempt of \<open>_run_transaction\<close> asks the environment five things: what
  \<open>_open_transaction\<close> raises, what the transaction function returns or raises, what
  \<open>tx._close()\<close> and \<open>tx._commit()\<close> raise, and what \<open>_disconnect()\<close> raises (the
  workspace of the session is not among the sources); and it takes some time.
\<close>

record 'r attempt =
  open_error :: "exn option"
  function_result :: "exn + 'r"
  close_error :: "exn option"
  commit_error :: "exn option"
  disconnect_error :: "exn option"
  duration :: real

text \<open>The body of the outer \<open>try\<close>: the result of the function, or the exception that
  leaves the body.\<close>

definition attempt_body :: "'r attempt \<Rightarrow> exn + 'r" where
  "attempt_body a =
     (case open_error a of
        Some e \<Rightarrow> Inl e
      | None \<Rightarrow>
          (case function_result a of
             Inl e \<Rightarrow> (case close_error a of Some e2 \<Rightarrow> Inl e2 | None \<Rightarrow> Inl e)
           | Inr result \<Rightarrow> (case commit_error a of Some e \<Rightarrow> Inl e | None \<Rightarrow> Inr result)))"

text \<open>
  What the session did: attempt \<open>k\<close>, a disconnect, the sleep on the \<open>k\<close>-th value that
  the generator \<open>retry_delay\<close> yielded.
\<close>

datatype session_event = SvAttempt nat | SvDisconnect | SvSleep nat

text \<open>
  The locals of \<open>_run_transaction\<close>, with the clock, the number of attempts made and
  what the session did. \<open>retry_delay_generator\<close> computes its values in double
  precision from the configuration and \<open>random()\<close>; that arithmetic is not modelled, and
  the generator \<open>retry_delay\<close> is kept as the number of values it has yielded so far.
\<close>

record run_state =
  errors :: "exn list"
  t0 :: real
  retry_delay :: nat
  clock :: real
  attempt_no :: nat
  s_trace :: "session_event list"

text \<open>The statements after the loop.\<close>

definition give_up :: "run_state \<Rightarrow> exn" where
  "give_up rs =
     (if errors rs \<noteq> [] then last (errors rs)
      else raise_new ServiceUnavailable ''Transaction failed'')"

text \<open>
  The \<open>while True\<close> loop. It ends by a \<open>return\<close>, a \<open>raise\<close> or the \<open>break\<close>; the first
  argument bounds the number of attempts, and \<open>None\<close> means the bound was reached.
  \<open>att k\<close> is the environment's answer for attempt \<open>k\<close> and \<open>slept k\<close> the time that
  passes in \<open>async_sleep\<close> on the \<open>k\<close>-th value of the generator.
\<close>

fun run_loop ::
  "nat \<Rightarrow> env \<Rightarrow> (nat \<Rightarrow> 'r attempt) \<Rightarrow> (nat \<Rightarrow> real) \<Rightarrow> real \<Rightarrow> run_state
     \<Rightarrow> ((exn + 'r) \<times> run_state) option" where
  "run_loop 0 env att slept max_transaction_retry_time rs = None"
| "run_loop (Suc n) env att slept max_transaction_retry_time rs =
     (let a = att (attempt_no rs);
          rs1 = rs\<lparr>clock := clock rs + max 0 (duration a),
                   attempt_no := Suc (attempt_no rs),
                   s_trace := s_trace rs @ [SvAttempt (attempt_no rs)]\<rparr>
      in case attempt_body a of
           Inr result \<Rightarrow> Some (Inr result, rs1)
         | Inl error \<Rightarrow>
             if isinstance env error DriverError \<or> isinstance env error Neo4jError then
               (let rs2 = rs1\<lparr>s_trace := s_trace rs1 @ [SvDisconnect]\<rparr> in
                case disconnect_error a of
                  Some d \<Rightarrow> Some (Inl d, rs2)
                | None \<Rightarrow>
                    if \<not> is_retryable env error then Some (Inl error, rs2)
                    else
                      (let rs3 = rs2\<lparr>errors := errors rs2 @ [error]\<rparr>;
                           rs4 = (if t0 rs3 = - 1 then rs3\<lparr>t0 := clock rs3\<rparr> else rs3);
                           t1 = clock rs4
                       in if t1 - t0 rs4 > max_transaction_retry_time
                          then Some (Inl (give_up rs4), rs4)
                          else
                            run_loop n env att slept max_transaction_retry_time
                              (rs4\<lparr>retry_delay := Suc (retry_delay rs4),
                                   clock := clock rs4 + max 0 (slept (retry_delay rs4)),
                                   s_trace := s_trace rs4 @ [SvSleep (retry_delay rs4)]\<rparr>)))
             else Some (Inl error, rs1))"

text \<open>
  \<open>_run_transaction\<close> itself. Of the configuration only \<open>max_transaction_retry_time\<close> is
  read by the loop; the three settings of the retry delay go to the generator.
\<close>

record session_config =
  max_transaction_retry_time :: real

definition run_transaction ::
  "nat \<Rightarrow> env \<Rightarrow> session_config \<Rightarrow> bool \<Rightarrow> (nat \<Rightarrow> 'r attempt) \<Rightarrow> (nat \<Rightarrow> real) \<Rightarrow> real
     \<Rightarrow> ((exn + 'r) \<times> run_state) option" where
  "run_transaction n env config callable att slept t_now =
     (let rs = \<lparr>errors = [], t0 = - 1, retry_delay = 0,
                clock = t_now, attempt_no = 0, s_trace = []\<rparr>
      in if \<not> callable then Some (Inl (raise_new TypeError ''Unit of work is not callable''), rs)
         else run_loop n env att slept (max_transaction_retry_time config) rs)"


text \<open>The handler \<open>except (DriverError, Neo4jError)\<close>.\<close>

definition driver_error :: "env \<Rightarrow> exn \<Rightarrow> bool" where
  "driver_error env e = (isinstance env e DriverError \<or> isinstance env e Neo4jError)"

text \<open>Auxiliary predicates for the proofs about the loop: what one round adds, and what
  holds of the attempt that ends the loop.\<close>

definition advanced :: "run_state \<Rightarrow> run_state \<Rightarrow> session_event list \<Rightarrow> exn list \<Rightarrow> bool" where
  "advanced rs rs' evs new =
     (attempt_no rs' = Suc (attempt_no rs) \<and> errors rs' = errors rs @ new \<and>
      s_trace rs' = s_trace rs @ evs)"

definition final_attempt ::
  "env \<Rightarrow> real \<Rightarrow> 'r attempt \<Rightarrow> nat \<Rightarrow> exn + 'r \<Rightarrow> exn list \<Rightarrow> session_event list \<Rightarrow> run_state \<Rightarrow> bool" where
  "final_attempt env mx a k res new evs rs' =
     (case attempt_body a of
        Inr result \<Rightarrow> res = Inr result
      | Inl error \<Rightarrow>
          if \<not> driver_error env error
          then res = Inl error \<and> (\<exists>evs'. evs = evs' @ [SvAttempt k])
          else (\<exists>evs'. evs = evs' @ [SvAttempt k, SvDisconnect]) \<and>
            (case disconnect_error a of
               Some d \<Rightarrow> res = Inl d
             | None \<Rightarrow>
                 if \<not> is_retryable env error then res = Inl error
                 else res = Inl error \<and> new \<noteq> [] \<and> last new = error \<and>
                      mx < clock rs' - t0 rs' \<and> give_up rs' = error))"

definition loop_outcome ::
  "env \<Rightarrow> (nat \<Rightarrow> 'r attempt) \<Rightarrow> real \<Rightarrow> run_state \<Rightarrow> exn + 'r \<Rightarrow> run_state \<Rightarrow> bool" where
  "loop_outcome env att mx rs res rs' =
     (attempt_no rs < attempt_no rs' \<and>
      (\<exists>new evs. errors rs' = errors rs @ new \<and>
         list_all (\<lambda>e. driver_error env e \<and> is_retryable env e) new \<and>
         s_trace rs' = s_trace rs @ evs \<and>
         attempt_no rs' \<le> Suc (attempt_no rs + length new) \<and>
         (\<forall>i<length new. attempt_body (att (attempt_no rs + i)) = Inl (new ! i)) \<and>
         final_attempt env mx (att (attempt_no rs' - 1)) (attempt_no rs' - 1) res new evs rs'))"


text \<open>A \<open>reset\<close> seen on one of the connections \<open>cs\<close> while it was neither defunct, nor
  closed, nor already reset.\<close>

fun reset_of_live :: "conn_id list \<Rightarrow> event \<Rightarrow> bool" where
  "reset_of_live cs (EvReset c b) =
     (c \<in> set cs \<and> \<not> defunct_f b \<and> \<not> closed_f b \<and> \<not> is_reset b)"
| "reset_of_live cs ev = False"


section \<open>Observations on a routing run\<close>






text \<open>
  How a sequence of attempts over a list of target addresses ended: all targets were
  asked and none gave a table; the deadline expired; a table was stored; an error was
  raised.
\<close>

datatype verdict = Exhausted | Stopped | Updated | Failed exn














section \<open>Example environments and states\<close>

text \<open>
  Concrete inputs for the examples below. \<open>neo4j_bases\<close> is the inheritance of the
  driver's exception classes; \<open>ex_env\<close> is an environment in which no call fails, no
  time passes and a wait on the condition is never notified.
\<close>

definition neo4j_bases :: "exc_class \<Rightarrow> exc_class list" where
  "neo4j_bases c =
     (if c = ClientError then [Neo4jError]
      else if c = ServiceUnavailable \<or> c = SessionExpired \<or> c = ConfigurationError
        then [DriverError]
      else if c = ReadServiceUnavailable \<or> c = WriteServiceUnavailable
        then [ServiceUnavailable, DriverError]
      else [])"

definition idle_bolt :: bolt_state where
  "idle_bolt = \<lparr>closed_f = False, defunct_f = False, stale_f = False, is_reset = True,
                idle_since = 0\<rparr>"

definition used_bolt :: bolt_state where
  "used_bolt = \<lparr>closed_f = False, defunct_f = False, stale_f = False, is_reset = False,
                idle_since = 0\<rparr>"

definition ex_env :: env where
  "ex_env =
     \<lparr>bases = neo4j_bases,
      is_fatal_during_discovery = (\<lambda>e. False),
      is_retryable = (\<lambda>e. exc_cls e = ServiceUnavailable \<or> exc_cls e = SessionExpired),
      io_time = (\<lambda>n. 0),
      io_error = (\<lambda>n. None),
      bolt_after = (\<lambda>n. idle_bolt),
      wait_result = (\<lambda>n. False),
      route_result = (\<lambda>n. []),
      choice_index = (\<lambda>n. 0),
      resolve = (\<lambda>a. [a]),
      set_order = (\<lambda>xs. xs)\<rparr>"

definition addr_a :: address where
  "addr_a = \<lparr>parts = [PStr ''10.0.0.1'', PInt 7687], cls = IPv4Address, host_name_attr = None\<rparr>"

definition addr_b :: address where
  "addr_b = \<lparr>parts = [PStr ''10.0.0.2'', PInt 7687], cls = IPv4Address, host_name_attr = None\<rparr>"

text \<open>A routing answer for the database \<open>neo4j\<close> with a router and a reader, but no writer.\<close>

definition ex_info :: routing_record where
  "ex_info = \<lparr>servers = [(ROUTE, [addr_a]), (READ, [addr_b])], rec_ttl = 300,
               rec_db = Some (PStr ''neo4j'')\<rparr>"

definition ex_route_env :: env where
  "ex_route_env = ex_env\<lparr>route_result := (\<lambda>n. [ex_info])\<rparr>"

text \<open>A routing pool as \<open>__init__\<close> leaves it, for the initial address \<open>addr_a\<close> and with no
  database configured.\<close>

definition ex_routing_pool :: neo4j_pool where
  "ex_routing_pool =
     \<lparr>max_connection_pool_size = Limit 100, heap = [], connections = [],
      connections_reservations = [], now = 0, tick = 0, trace = [],
      routing_tables = [PNone \<mapsto> RoutingTable_new 0 PNone [addr_a] [] [] 0],
      default_database = PNone,
      update_routing_table_timeout = TSeconds 90,
      routing_table_purge_delay = 30\<rparr>"

text \<open>A pool of size one whose only connection, to \<open>addr_a\<close>, is checked out.\<close>

definition empty_pool :: pool where
  "empty_pool =
     \<lparr>max_connection_pool_size = Limit 1, heap = [], connections = [],
      connections_reservations = [], now = 0, tick = 0, trace = []\<rparr>"

definition full_pool :: pool where
  "full_pool =
     \<lparr>max_connection_pool_size = Limit 1,
      heap = [\<lparr>bolt = used_bolt, in_use = True, pool_set = True\<rparr>],
      connections = [(addr_a, [0])],
      connections_reservations = [],
      now = 0, tick = 0, trace = []\<rparr>"

text \<open>Attempts of a managed transaction: two that lose the connection, then one that the
  server rejects.\<close>

definition retryable_failure :: "nat attempt" where
  "retryable_failure =
     \<lparr>open_error = None,
      function_result = Inl (raise_new ServiceUnavailable ''connection lost''),
      close_error = None, commit_error = None, disconnect_error = None, duration = 1/100\<rparr>"

definition fatal_failure :: "nat attempt" where
  "fatal_failure =
     \<lparr>open_error = None,
      function_result = Inl (raise_new ClientError ''syntax error''),
      close_error = None, commit_error = None, disconnect_error = None, duration = 1/100\<rparr>"

definition flaky :: "nat \<Rightarrow> nat attempt" where
  "flaky k = (if k < 2 then retryable_failure else fatal_failure)"

text \<open>Sleeps of half a second each, and the locals as the loop is entered.\<close>

definition half_second :: "nat \<Rightarrow> real" where
  "half_second k = 1/2"

definition fresh_run :: run_state where
  "fresh_run =
     \<lparr>errors = [], t0 = - 1, retry_delay = 0, clock = 0, attempt_no = 0, s_trace = []\<rparr>"

text \<open>Attempts after which \<open>_disconnect()\<close> raises as well: one that the server rejects and
  one that loses the connection.\<close>

definition rejected_then_broken :: "nat \<Rightarrow> nat attempt" where
  "rejected_then_broken k =
     fatal_failure\<lparr>disconnect_error := Some (raise_new OSError ''broken pipe'')\<rparr>"

definition lost_then_broken :: "nat \<Rightarrow> nat attempt" where
  "lost_then_broken k =
     retryable_failure\<lparr>disconnect_error := Some (raise_new OSError ''broken pipe'')\<rparr>"


section \<open>Properties of the connection pool\<close>

lemma reset_of_live_Cons: "reset_of_live cs ev \<Longrightarrow> reset_of_live (c # cs) ev"
  by (cases ev) auto

lemma reset_heap:
  "reset env st c = (r, st1) \<Longrightarrow>
     length (heap st1) = length (heap st) \<and>
     (\<forall>k. in_use (heap st1 ! k) = in_use (heap st ! k)) \<and>
     trace st1 = trace st @ [EvReset c (bolt (heap st ! c))]"
  by (auto simp: reset_def io_step_def log_event_def in_use_set_bolt)
     (auto simp: set_bolt_def)

lemma clear_in_use_facts:
  "length (heap (clear_in_use c st)) = length (heap st)"
  "in_use (heap (clear_in_use c st) ! k) \<Longrightarrow> in_use (heap st ! k)"
  "c < length (heap st) \<Longrightarrow> \<not> in_use (heap (clear_in_use c st) ! c)"
  "trace (clear_in_use c st) = trace st"
  by (cases "c < length (heap st)";
      auto simp: clear_in_use_def nth_list_update list_update_beyond not_less split: if_splits)+

definition release_post ::
  "env \<Rightarrow> 'a pool_scheme \<Rightarrow> conn_id list \<Rightarrow> exn option \<Rightarrow> 'a pool_scheme \<Rightarrow> bool" where
  "release_post env st cs r st' =
    (length (heap st') = length (heap st) \<and>
     (\<forall>k. in_use (heap st' ! k) \<longrightarrow> in_use (heap st ! k)) \<and>
     (r = None \<longrightarrow> (\<forall>c\<in>set cs. c < length (heap st) \<longrightarrow> \<not> in_use (heap st' ! c))) \<and>
     (\<forall>e. r = Some e \<longrightarrow>
        \<not> (isinstance env e Neo4jError \<or> isinstance env e DriverError \<or> isinstance env e BoltError)) \<and>
     (\<exists>evs. trace st' = trace st @ evs \<and> list_all (reset_of_live cs) evs))"

lemma release_post_skip:
  assumes "release_post env (clear_in_use c st) cs r st'"
  shows "release_post env st (c # cs) r st'"
proof -
  from assms obtain evs where evs: "trace st' = trace st @ evs" "list_all (reset_of_live cs) evs"
    by (auto simp: release_post_def clear_in_use_facts)
  then have "list_all (reset_of_live (c # cs)) evs"
    by (auto simp: list_all_iff intro: reset_of_live_Cons)
  moreover have "\<not> in_use (heap st' ! c)" if "c < length (heap st)"
    using assms that clear_in_use_facts(3) [of c st] by (auto simp: release_post_def)
  ultimately show ?thesis
    using assms evs(1) clear_in_use_facts(2) [of c st]
    unfolding release_post_def clear_in_use_facts by auto
qed

lemma release_post_reset:
  assumes rs: "reset env st c = (x, st1)"
    and ok: "\<not> defunct_f (bolt (heap st ! c))" "\<not> closed_f (bolt (heap st ! c))"
      "\<not> is_reset (bolt (heap st ! c))"
    and post: "release_post env (clear_in_use c st1) cs r st'"
  shows "release_post env st (c # cs) r st'"
proof -
  note rh = reset_heap [OF rs]
  from post obtain evs where evs: "trace st' = trace st1 @ evs" "list_all (reset_of_live cs) evs"
    by (auto simp: release_post_def clear_in_use_facts)
  have t: "trace st' = trace st @ (EvReset c (bolt (heap st ! c)) # evs)"
    using evs rh by simp
  have l: "list_all (reset_of_live (c # cs)) (EvReset c (bolt (heap st ! c)) # evs)"
    using evs(2) ok by (auto simp: list_all_iff intro: reset_of_live_Cons)
  have u: "\<not> in_use (heap st' ! c)" if "c < length (heap st)"
    using post that rh clear_in_use_facts(3) [of c st1] by (auto simp: release_post_def)
  have m: "in_use (heap st' ! k) \<longrightarrow> in_use (heap st ! k)" for k
    using post rh clear_in_use_facts(2) [of c st1 k] by (auto simp: release_post_def)
  have n: "length (heap st') = length (heap st)"
    using post rh by (simp add: release_post_def clear_in_use_facts)
  have rest: "r = None \<longrightarrow> (\<forall>c\<in>set cs. c < length (heap st) \<longrightarrow> \<not> in_use (heap st' ! c))"
    "\<forall>e. r = Some e \<longrightarrow>
        \<not> (isinstance env e Neo4jError \<or> isinstance env e DriverError \<or> isinstance env e BoltError)"
    using post rh by (auto simp: release_post_def clear_in_use_facts)
  show ?thesis
    unfolding release_post_def using t l u m n rest by auto
qed

lemma release_loop_post: "release_loop env st cs = (r, st') \<Longrightarrow> release_post env st cs r st'"
proof (induction cs arbitrary: st)
  case Nil
  then show ?case by (simp add: release_post_def)
next
  case (Cons c cs)
  let ?b = "bolt (heap st ! c)"
  show ?case
  proof (cases "defunct_f ?b \<or> closed_f ?b \<or> is_reset ?b")
    case True
    from Cons.prems True have "release_loop env (clear_in_use c st) cs = (r, st')"
      by (auto simp: Let_def clear_in_use_def)
    then show ?thesis by (intro release_post_skip Cons.IH)
  next
    case False
    then have ok: "\<not> defunct_f ?b" "\<not> closed_f ?b" "\<not> is_reset ?b" by simp_all
    obtain x st1 where rs: "reset env st c = (x, st1)" by (cases "reset env st c")
    note rh = reset_heap [OF rs]
    show ?thesis
    proof (cases "\<exists>e. x = Some e \<and> \<not> (isinstance env e Neo4jError \<or> isinstance env e DriverError \<or> isinstance env e BoltError)")
      case True
      with Cons.prems ok rs have "r = x" "st' = st1" by (auto simp: Let_def)
      with True rh ok show ?thesis by (auto simp: release_post_def)
    next
      case False
      with Cons.prems ok rs have "release_loop env (clear_in_use c st1) cs = (r, st')"
        by (cases x) (auto simp: Let_def clear_in_use_def)
      then show ?thesis by (intro release_post_reset [OF rs ok] Cons.IH)
    qed
  qed
qed

text \<open>
  Claim C9. When \<open>release\<close> returns, every connection passed to it has \<open>in_use\<close> false,
  and \<open>notify_all\<close> was the last thing the pool did; the only other events are resets,
  each of a connection that was not defunct, not closed and not already reset. An
  exception raised by such a reset leaves \<open>release\<close> only if it is not a \<open>Neo4jError\<close>,
  \<open>DriverError\<close> or \<open>BoltError\<close>: those are swallowed.
\<close>

theorem release_clears_in_use_and_notifies:
  "(release env st cs = (Inr (), st') \<longrightarrow>
      (\<forall>c\<in>set cs. c < length (heap st) \<longrightarrow> \<not> in_use (heap st' ! c)) \<and>
      (\<exists>evs. trace st' = trace st @ evs @ [EvNotifyAll] \<and> list_all (reset_of_live cs) evs)) \<and>
   (release env st cs = (Inl e, st') \<longrightarrow>
      \<not> (isinstance env e Neo4jError \<or> isinstance env e DriverError \<or> isinstance env e BoltError))"
proof -
  obtain r st1 where rl: "release_loop env st cs = (r, st1)" by (cases "release_loop env st cs")
  note p = release_loop_post [OF rl, unfolded release_post_def]
  show ?thesis
  proof (cases r)
    case None
    with rl have "release env st cs = (Inr (), log_event EvNotifyAll st1)"
      by (simp add: release_def)
    with p None show ?thesis by (auto simp: log_event_def)
  next
    case (Some x)
    with rl have "release env st cs = (Inl x, st1)" by (simp add: release_def)
    with p Some show ?thesis by auto
  qed
qed


theorem release_clears_in_use_and_notifies_witness:
  "release (ex_env\<lparr>io_error := (\<lambda>n. Some (raise_new ServiceUnavailable ''gone''))\<rparr>) full_pool [0, 0]
     = (Inr (), full_pool\<lparr>heap := [\<lparr>bolt = idle_bolt, in_use = False, pool_set = True\<rparr>],
          tick := 1, trace := [EvReset 0 used_bolt, EvNotifyAll]\<rparr>) \<and>
   \<not> in_use (heap (full_pool\<lparr>heap := [\<lparr>bolt = idle_bolt, in_use = False, pool_set = True\<rparr>],
          tick := 1, trace := [EvReset 0 used_bolt, EvNotifyAll]\<rparr>) ! 0) \<and>
   release (ex_env\<lparr>io_error := (\<lambda>n. Some (raise_new OSError ''broken pipe''))\<rparr>) full_pool [0]
     = (Inl (raise_new OSError ''broken pipe''),
        full_pool\<lparr>heap := [\<lparr>bolt = idle_bolt, in_use = True, pool_set = True\<rparr>],
          tick := 1, trace := [EvReset 0 used_bolt]\<rparr>) \<and>
   \<not> isinstance (ex_env\<lparr>io_error := (\<lambda>n. Some (raise_new OSError ''broken pipe''))\<rparr>)
        (raise_new OSError ''broken pipe'') DriverError"
proof -
  have r1: "release (ex_env\<lparr>io_error := (\<lambda>n. Some (raise_new ServiceUnavailable ''gone''))\<rparr>) full_pool [0, 0]
     = (Inr (), full_pool\<lparr>heap := [\<lparr>bolt = idle_bolt, in_use = False, pool_set = True\<rparr>],
          tick := 1, trace := [EvReset 0 used_bolt, EvNotifyAll]\<rparr>)"
    by code_simp
  have r2: "release (ex_env\<lparr>io_error := (\<lambda>n. Some (raise_new OSError ''broken pipe''))\<rparr>) full_pool [0]
     = (Inl (raise_new OSError ''broken pipe''),
        full_pool\<lparr>heap := [\<lparr>bolt = idle_bolt, in_use = True, pool_set = True\<rparr>],
          tick := 1, trace := [EvReset 0 used_bolt]\<rparr>)"
    by code_simp
  have l: "0 < length (heap full_pool)" by (simp add: full_pool_def)
  from release_clears_in_use_and_notifies
         [of "ex_env\<lparr>io_error := (\<lambda>n. Some (raise_new ServiceUnavailable ''gone''))\<rparr>"
            full_pool "[0, 0]" _ "raise_new OSError ''broken pipe''"] r1 l
  have a: "\<not> in_use (heap (full_pool\<lparr>heap := [\<lparr>bolt = idle_bolt, in_use = False, pool_set = True\<rparr>],
          tick := 1, trace := [EvReset 0 used_bolt, EvNotifyAll]\<rparr>) ! 0)"
    by simp
  from release_clears_in_use_and_notifies
         [of "ex_env\<lparr>io_error := (\<lambda>n. Some (raise_new OSError ''broken pipe''))\<rparr>"
            full_pool "[0]" _ "raise_new OSError ''broken pipe''"] r2
  have b: "\<not> isinstance (ex_env\<lparr>io_error := (\<lambda>n. Some (raise_new OSError ''broken pipe''))\<rparr>)
        (raise_new OSError ''broken pipe'') DriverError"
    by simp
  from r1 r2 a b show ?thesis by blast
qed

text \<open>
  Claim C1 asks that the pooled connections of an address plus its reservations never
  exceed \<open>max_connection_pool_size\<close>, and that an acquire which finds the pool at
  capacity leaves no reservation behind. \<open>_acquire_new_later\<close> adds the reservation before
  it looks at \<open>can_create_new_connection\<close> and nothing takes it back when no creator
  is returned. Here a pool of size one hands out its only connection; a second acquire
  waits, times out with the \<open>ClientError\<close>, and leaves one connection and one
  reservation for the address: two, against a maximum of one.
\<close>

theorem at_capacity_acquire_leaks_reservation:
  "(case IOPool_acquire 1 ex_env IOPool_deactivate empty_pool addr_a
           (Deadline (Some (1/10)) (Some (1/10))) None of
      Some (Inr c, st1) \<Rightarrow>
        int (length (conns_at st1 addr_a)) + reservations_at st1 addr_a = 1 \<and>
        (case IOPool_acquire 1 ex_env IOPool_deactivate st1 addr_a
                (Deadline (Some (1/10)) (Some (1/10))) None of
           Some (Inl e, st2) \<Rightarrow>
             exc_cls e = ClientError \<and> max_connection_pool_size st2 = Limit 1 \<and>
             int (length (conns_at st2 addr_a)) + reservations_at st2 addr_a = 2
         | _ \<Rightarrow> False)
    | _ \<Rightarrow> False)"
  by code_simp

section \<open>Properties of the routing pool\<close>

lemma ordered_set_Nil_iff: "ordered_set xs = [] \<longleftrightarrow> xs = []"
  by (cases xs) simp_all

text \<open>
  Claim C4. Whatever \<open>fetch_routing_info\<close> comes back with, \<open>fetch_routing_table\<close> returns a
  parsed table exactly when the answer has a first record that reports at least one
  router and at least one reader; the writers play no part, and the table returned is
  the parsed record. It returns \<open>None\<close> on a \<open>ServiceUnavailable\<close> or \<open>SessionExpired\<close>, and
  on an answer without routers or readers. A \<open>Neo4jError\<close> is raised again exactly when
  it is fatal during discovery, and is turned into \<open>None\<close> otherwise; nothing is raised
  that \<open>fetch_routing_info\<close> did not raise.
\<close>

theorem fetch_routing_table_result:
  assumes "fetch_routing_info n env st a dl = Some (outcome, st1)"
  shows "\<exists>res. fetch_routing_table n env st a dl database
                  = Some (res, log_event (EvFetch a (outcome_of res)) st1) \<and>
     ((\<exists>t. res = Inr (Some t)) \<longleftrightarrow>
        (\<exists>info rest. outcome = Inr (info # rest)
           \<and> addresses_of_role ROUTE (servers info) \<noteq> []
           \<and> addresses_of_role READ (servers info) \<noteq> [])) \<and>
     (\<forall>info rest. outcome = Inr (info # rest)
           \<and> addresses_of_role ROUTE (servers info) \<noteq> []
           \<and> addresses_of_role READ (servers info) \<noteq> [] \<longrightarrow>
        res = Inr (Some (parse_routing_info (now st1)
                (case rec_db info of Some d \<Rightarrow> d | None \<Rightarrow> database) (servers info) (rec_ttl info)))) \<and>
     (\<forall>infos. outcome = Inr infos \<longrightarrow> (\<exists>t. res = Inr t)) \<and>
     (\<forall>e. outcome = Inl e \<and> \<not> isinstance env e Neo4jError
           \<and> (isinstance env e ServiceUnavailable \<or> isinstance env e SessionExpired) \<longrightarrow>
        res = Inr None) \<and>
     (\<forall>e. outcome = Inl e \<and> isinstance env e Neo4jError \<longrightarrow>
        (if is_fatal_during_discovery env e then res = Inl e else res = Inr None)) \<and>
     (\<forall>e. res = Inl e \<longrightarrow> outcome = Inl e)"
proof -
  let ?res = "routing_table_of_info env (now st1) database outcome"
  have f: "fetch_routing_table n env st a dl database
             = Some (?res, log_event (EvFetch a (outcome_of ?res)) st1)"
    using assms by (simp add: fetch_routing_table_def Let_def)
  have "((\<exists>t. ?res = Inr (Some t)) \<longleftrightarrow>
        (\<exists>info rest. outcome = Inr (info # rest)
           \<and> addresses_of_role ROUTE (servers info) \<noteq> []
           \<and> addresses_of_role READ (servers info) \<noteq> []))"
    by (auto simp: routing_table_of_info_def Let_def parse_routing_info_def RoutingTable_new_def
        ordered_set_Nil_iff split: sum.splits list.splits if_splits)
  moreover have "(\<forall>info rest. outcome = Inr (info # rest)
           \<and> addresses_of_role ROUTE (servers info) \<noteq> []
           \<and> addresses_of_role READ (servers info) \<noteq> [] \<longrightarrow>
        ?res = Inr (Some (parse_routing_info (now st1)
                (case rec_db info of Some d \<Rightarrow> d | None \<Rightarrow> database) (servers info) (rec_ttl info))))"
    by (auto simp: routing_table_of_info_def Let_def parse_routing_info_def RoutingTable_new_def
        ordered_set_Nil_iff split: sum.splits list.splits if_splits)
  moreover have "(\<forall>infos. outcome = Inr infos \<longrightarrow> (\<exists>t. ?res = Inr t))"
    by (auto simp: routing_table_of_info_def Let_def split: sum.splits list.splits if_splits)
  moreover have "(\<forall>e. outcome = Inl e \<and> \<not> isinstance env e Neo4jError
           \<and> (isinstance env e ServiceUnavailable \<or> isinstance env e SessionExpired) \<longrightarrow>
        ?res = Inr None)"
    by (auto simp: routing_table_of_info_def)
  moreover have "(\<forall>e. outcome = Inl e \<and> isinstance env e Neo4jError \<longrightarrow>
        (if is_fatal_during_discovery env e then ?res = Inl e else ?res = Inr None))"
    by (auto simp: routing_table_of_info_def)
  moreover have "(\<forall>e. ?res = Inl e \<longrightarrow> outcome = Inl e)"
    by (auto simp: routing_table_of_info_def Let_def split: sum.splits list.splits if_splits)
  ultimately show ?thesis using f by blast
qed

theorem fetch_routing_table_result_witness:
  "\<exists>t st'. fetch_routing_table 1 ex_route_env ex_routing_pool addr_a (Deadline None None) PNone
              = Some (Inr (Some t), st') \<and>
           routers t = [addr_a] \<and> readers t = [addr_b] \<and> writers t = [] \<and>
           rt_database t = PStr ''neo4j''"
proof -
  have "map_option fst (fetch_routing_info 1 ex_route_env ex_routing_pool addr_a (Deadline None None))
          = Some (Inr [ex_info])"
    by code_simp
  then obtain st1 where
    h: "fetch_routing_info 1 ex_route_env ex_routing_pool addr_a (Deadline None None)
          = Some (Inr [ex_info], st1)"
    by (cases "fetch_routing_info 1 ex_route_env ex_routing_pool addr_a (Deadline None None)") auto
  note th = fetch_routing_table_result [OF h, of PNone]
  from th obtain res where
    r: "fetch_routing_table 1 ex_route_env ex_routing_pool addr_a (Deadline None None) PNone
          = Some (res, log_event (EvFetch addr_a (outcome_of res)) st1)"
    and p: "\<forall>info rest. (Inr [ex_info] :: exn + routing_record list) = Inr (info # rest)
           \<and> addresses_of_role ROUTE (servers info) \<noteq> []
           \<and> addresses_of_role READ (servers info) \<noteq> [] \<longrightarrow>
        res = Inr (Some (parse_routing_info (now st1)
                (case rec_db info of Some d \<Rightarrow> d | None \<Rightarrow> PNone) (servers info) (rec_ttl info)))"
    by (elim exE conjE)
  have a: "addresses_of_role ROUTE (servers ex_info) = [addr_a]"
    "addresses_of_role READ (servers ex_info) = [addr_b]"
    "addresses_of_role WRITE (servers ex_info) = []"
    "rec_db ex_info = Some (PStr ''neo4j'')"
    by (simp_all add: ex_info_def addresses_of_role_def)
  from p [rule_format, of ex_info "[]"] a
  have res: "res = Inr (Some (parse_routing_info (now st1) (PStr ''neo4j'') (servers ex_info)
                (rec_ttl ex_info)))"
    by simp
  let ?t = "parse_routing_info (now st1) (PStr ''neo4j'') (servers ex_info) (rec_ttl ex_info)"
  have t: "routers ?t = [addr_a]" "readers ?t = [addr_b]" "writers ?t = []"
    "rt_database ?t = PStr ''neo4j''"
    by (simp_all add: parse_routing_info_def RoutingTable_new_def a)
  from r res t show ?thesis by blast
qed


text \<open>
  Claim C5 asks that every timeout which is not greater than 0 is rejected with the
  client error before anything is acquired. The checks of \<open>acquire\<close> are
  \<open>if not timeout\<close> and \<open>if not acquisition_timeout\<close>: they reject \<open>None\<close> and 0 and let a
  negative number through, although the message they raise reads "must be a float
  larger than 0". With \<open>acquisition_timeout = -1\<close> the routing table is refreshed, a
  connection to the router opened and a table fetched, before the value is looked at
  again.
\<close>

theorem negative_timeouts_pass_the_checks:
  "acquire_checks READ_ACCESS (TSeconds (- 1)) (TSeconds 60) = None \<and>
   acquire_checks WRITE_ACCESS (TSeconds 30) (TSeconds (- 1)) = None \<and>
   (case Neo4jPool_acquire 2 ex_route_env ex_routing_pool WRITE_ACCESS (TSeconds 30)
           (TSeconds (- 1)) (PStr ''neo4j'') None of
      Some (r, st') \<Rightarrow>
        EvOpen addr_a \<in> set (trace st') \<and> EvFetch addr_a (GotTable (PStr ''neo4j'')) \<in> set (trace st')
    | None \<Rightarrow> False)"
  by code_simp



text \<open>
  Claim C6. When the routing table of the database has no reader (for \<open>READ\<close>) or no
  writer (for \<open>WRITE\<close>), \<open>_select_address\<close> raises \<open>ReadServiceUnavailable\<close> or
  \<open>WriteServiceUnavailable\<close>, and the loop of \<open>acquire\<close>, in whatever round it is, raises
  \<open>SessionExpired\<close> from it, with the access mode in the message.
\<close>

theorem selection_failure_is_session_expired:
  assumes "table_of st database = Some rt"
    and "(if access_mode = READ_ACCESS then readers rt else writers rt) = []"
  shows "select_address env st access_mode database
           = (Inl (raise_new (if access_mode = READ_ACCESS then ReadServiceUnavailable
                              else WriteServiceUnavailable)
                     (if access_mode = READ_ACCESS then ''No read service currently available''
                      else ''No write service currently available'')), st) \<and>
         acquire_loop (Suc n) env st access_mode database dl lct
           = Some (Inl (Exn SessionExpired
                (''Failed to obtain connection towards '' @ [CHR 0x27] @ mode_name access_mode
                    @ [CHR 0x27] @ '' server.'')
                (Some (raise_new (if access_mode = READ_ACCESS then ReadServiceUnavailable
                              else WriteServiceUnavailable)
                     (if access_mode = READ_ACCESS then ''No read service currently available''
                      else ''No write service currently available'')))), st)"
  using assms by (auto simp: select_address_def Let_def isinstance_def)

theorem selection_failure_is_session_expired_witness:
  "acquire_loop (Suc 0) ex_env (on_write_failure (set_table ex_routing_pool (PStr ''neo4j'')
       (RoutingTable_new 0 (PStr ''neo4j'') [addr_a] [addr_b] [addr_a] 300)) addr_a)
      WRITE_ACCESS (PStr ''neo4j'') (Deadline None None) None
    = Some (Inl (Exn SessionExpired ''Failed to obtain connection towards 'WRITE' server.''
                   (Some (raise_new WriteServiceUnavailable ''No write service currently available''))),
            on_write_failure (set_table ex_routing_pool (PStr ''neo4j'')
       (RoutingTable_new 0 (PStr ''neo4j'') [addr_a] [addr_b] [addr_a] 300)) addr_a)"
proof -
  let ?st = "on_write_failure (set_table ex_routing_pool (PStr ''neo4j'')
       (RoutingTable_new 0 (PStr ''neo4j'') [addr_a] [addr_b] [addr_a] 300)) addr_a"
  have t: "table_of ?st (PStr ''neo4j'')
      = Some ((RoutingTable_new 0 (PStr ''neo4j'') [addr_a] [addr_b] [addr_a] 300)\<lparr>writers := []\<rparr>)"
    by (simp add: table_of_def on_write_failure_def set_table_def ex_routing_pool_def
        RoutingTable_new_def discard_def)
  have w: "(if WRITE_ACCESS = READ_ACCESS
            then readers ((RoutingTable_new 0 (PStr ''neo4j'') [addr_a] [addr_b] [addr_a] 300)\<lparr>writers := []\<rparr>)
            else writers ((RoutingTable_new 0 (PStr ''neo4j'') [addr_a] [addr_b] [addr_a] 300)\<lparr>writers := []\<rparr>)) = []"
    by simp
  from selection_failure_is_session_expired [OF t w, of ex_env 0 "Deadline None None" None]
  show ?thesis by (simp add: mode_name_def del: acquire_loop.simps)
qed


subsection \<open>The routing run\<close>







































































subsection \<open>Freshness of the routing table\<close>
















section \<open>Properties of the managed transaction loop\<close>

lemma run_loop_Suc:
  assumes "run_loop (Suc n) env att slept mx rs = Some (res, rs')"
  shows "(case attempt_body (att (attempt_no rs)) of
     Inr result \<Rightarrow> res = Inr result \<and> advanced rs rs' [SvAttempt (attempt_no rs)] []
   | Inl error \<Rightarrow>
      if \<not> driver_error env error
      then res = Inl error \<and> advanced rs rs' [SvAttempt (attempt_no rs)] []
      else
        (case disconnect_error (att (attempt_no rs)) of
           Some d \<Rightarrow> res = Inl d \<and> advanced rs rs' [SvAttempt (attempt_no rs), SvDisconnect] []
         | None \<Rightarrow>
             if \<not> is_retryable env error
             then res = Inl error \<and> advanced rs rs' [SvAttempt (attempt_no rs), SvDisconnect] []
             else (res = Inl error \<and> mx < clock rs' - t0 rs' \<and>
                   advanced rs rs' [SvAttempt (attempt_no rs), SvDisconnect] [error])
                \<or> (\<exists>rs5 j. run_loop n env att slept mx rs5 = Some (res, rs') \<and>
                     advanced rs rs5 [SvAttempt (attempt_no rs), SvDisconnect, SvSleep j] [error])))"
  using assms
  by (auto simp: Let_def driver_error_def give_up_def advanced_def
      split: sum.splits option.splits if_splits prod.splits)

lemma loop_outcome_last:
  assumes "advanced rs rs' evs new"
    and "list_all (\<lambda>e. driver_error env e \<and> is_retryable env e) new"
    and "\<forall>i<length new. attempt_body (att (attempt_no rs + i)) = Inl (new ! i)"
    and "final_attempt env mx (att (attempt_no rs)) (attempt_no rs) res new evs rs'"
  shows "loop_outcome env att mx rs res rs'"
  using assms unfolding loop_outcome_def advanced_def by auto

lemma final_attempt_more:
  assumes "final_attempt env mx a k res new evs rs'"
  shows "final_attempt env mx a k res (error # new) (evs0 @ evs) rs'"
  using assms unfolding final_attempt_def
  by (auto split: sum.splits option.splits if_splits)

lemma loop_outcome_step:
  assumes lo: "loop_outcome env att mx rs5 res rs'"
    and adv: "advanced rs rs5 evs0 [error]"
    and err: "driver_error env error" "is_retryable env error"
    and body: "attempt_body (att (attempt_no rs)) = Inl error"
  shows "loop_outcome env att mx rs res rs'"
proof -
  from lo obtain new evs where
    n: "attempt_no rs5 < attempt_no rs'" "errors rs' = errors rs5 @ new"
      "list_all (\<lambda>e. driver_error env e \<and> is_retryable env e) new"
      "s_trace rs' = s_trace rs5 @ evs"
      "attempt_no rs' \<le> Suc (attempt_no rs5 + length new)"
      "\<forall>i<length new. attempt_body (att (attempt_no rs5 + i)) = Inl (new ! i)"
      "final_attempt env mx (att (attempt_no rs' - 1)) (attempt_no rs' - 1) res new evs rs'"
    unfolding loop_outcome_def by (elim conjE exE)
  have a: "attempt_no rs < attempt_no rs'" using n(1) adv by (simp add: advanced_def)
  have b: "errors rs' = errors rs @ (error # new)" using n(2) adv by (simp add: advanced_def)
  have c: "list_all (\<lambda>e. driver_error env e \<and> is_retryable env e) (error # new)"
    using n(3) err by simp
  have d: "s_trace rs' = s_trace rs @ (evs0 @ evs)" using n(4) adv by (simp add: advanced_def)
  note e = final_attempt_more [OF n(7), of error evs0]
  have k5: "attempt_no rs5 = Suc (attempt_no rs)" using adv by (simp add: advanced_def)
  have f: "attempt_no rs' \<le> Suc (attempt_no rs + length (error # new))"
    using n(5) k5 by simp
  have g: "attempt_body (att (attempt_no rs + i)) = Inl ((error # new) ! i)"
    if "i < length (error # new)" for i
  proof (cases i)
    case 0
    then show ?thesis using body by simp
  next
    case (Suc j)
    then have "j < length new" using that by simp
    with n(6) have "attempt_body (att (attempt_no rs5 + j)) = Inl (new ! j)" by blast
    then show ?thesis using Suc k5 by simp
  qed
  show ?thesis unfolding loop_outcome_def
    using a b c d e f g by blast
qed

lemma run_loop_outcome_aux:
  "run_loop n env att slept mx rs = Some (res, rs') \<Longrightarrow> loop_outcome env att mx rs res rs'"
proof (induction n arbitrary: rs)
  case 0
  then show ?case by simp
next
  case (Suc n)
  let ?k = "attempt_no rs"
  note u = run_loop_Suc [OF Suc.prems]
  show ?case
  proof (cases "attempt_body (att ?k)")
    case (Inr result)
    with u have "res = Inr result" "advanced rs rs' [SvAttempt ?k] []" by simp_all
    then show ?thesis using Inr
      by (intro loop_outcome_last [where evs = "[SvAttempt ?k]" and new = "[]"])
         (simp_all add: final_attempt_def)
  next
    case (Inl error)
    show ?thesis
    proof (cases "driver_error env error")
      case False
      with u Inl have "res = Inl error" "advanced rs rs' [SvAttempt ?k] []" by simp_all
      then show ?thesis using Inl False
        by (intro loop_outcome_last [where evs = "[SvAttempt ?k]" and new = "[]"])
           (simp_all add: final_attempt_def)
    next
      case True
      note drv = True
      show ?thesis
      proof (cases "disconnect_error (att ?k)")
        case (Some d)
        with u Inl drv have "res = Inl d" "advanced rs rs' [SvAttempt ?k, SvDisconnect] []"
          by simp_all
        then show ?thesis using Inl drv Some
          by (intro loop_outcome_last [where evs = "[SvAttempt ?k, SvDisconnect]" and new = "[]"])
             (simp_all add: final_attempt_def)
      next
        case None
        show ?thesis
        proof (cases "is_retryable env error")
          case False
          with u Inl drv None
          have "res = Inl error" "advanced rs rs' [SvAttempt ?k, SvDisconnect] []"
            by simp_all
          then show ?thesis using Inl drv None False
            by (intro loop_outcome_last [where evs = "[SvAttempt ?k, SvDisconnect]" and new = "[]"])
               (simp_all add: final_attempt_def)
        next
          case True
          with u Inl drv None
          consider (giveup) "res = Inl error" "mx < clock rs' - t0 rs'"
              "advanced rs rs' [SvAttempt ?k, SvDisconnect] [error]"
            | (again) rs5 j where "run_loop n env att slept mx rs5 = Some (res, rs')"
              "advanced rs rs5 [SvAttempt ?k, SvDisconnect, SvSleep j] [error]"
            by auto
          then show ?thesis
          proof cases
            case giveup
            from giveup(3) have "errors rs' = errors rs @ [error]" by (simp add: advanced_def)
            then have g: "give_up rs' = error" by (simp add: give_up_def)
            show ?thesis using giveup Inl drv None True g
              by (intro loop_outcome_last [where evs = "[SvAttempt ?k, SvDisconnect]" and new = "[error]"])
                 (simp_all add: final_attempt_def)
          next
            case again
            from Suc.IH [OF again(1)] have "loop_outcome env att mx rs5 res rs'" .
            then show ?thesis using again(2) drv True Inl by (rule loop_outcome_step)
          qed
        qed
      qed
    qed
  qed
qed


text \<open>
  Claim C8, as the code has it. Whenever the loop of \<open>_run_transaction\<close> ends, the error
  history has grown by the errors of the attempts made, in order, each a retryable
  \<open>DriverError\<close> or \<open>Neo4jError\<close>. The last attempt decides the result. If its error is a
  driver error, the session is disconnected (the last two events are the attempt and the
  disconnect); when \<open>_disconnect()\<close> itself raises, its exception leaves the loop and the
  error of the attempt is neither raised nor appended. When \<open>_disconnect()\<close> raises
  nothing, an error that is not retryable is raised at once, and a retryable one has
  been appended: then the loop has given up, the elapsed time exceeds
  \<open>max_transaction_retry_time\<close>, the history is not empty and the error raised is its
  last. The statements after the loop raise \<open>ServiceUnavailable("Transaction failed")\<close>
  on an empty history. An attempt that raises a non-retryable driver error and is
  followed by a clean disconnect always ends the loop with that error, and an attempt
  that raises a driver error and is followed by a failing disconnect always ends it with
  the exception of the disconnect, the history unchanged.
\<close>

theorem run_loop_outcome:
  assumes "run_loop n env att slept mx rs = Some (res, rs')"
  shows "attempt_no rs < attempt_no rs' \<and>
      (\<exists>new evs. errors rs' = errors rs @ new \<and>
         list_all (\<lambda>e. driver_error env e \<and> is_retryable env e) new \<and>
         s_trace rs' = s_trace rs @ evs \<and>
         attempt_no rs' \<le> Suc (attempt_no rs + length new) \<and>
         (\<forall>i<length new. attempt_body (att (attempt_no rs + i)) = Inl (new ! i)) \<and>
         (case attempt_body (att (attempt_no rs' - 1)) of
            Inr result \<Rightarrow> res = Inr result
          | Inl error \<Rightarrow>
              if \<not> driver_error env error
              then res = Inl error \<and> (\<exists>evs'. evs = evs' @ [SvAttempt (attempt_no rs' - 1)])
              else (\<exists>evs'. evs = evs' @ [SvAttempt (attempt_no rs' - 1), SvDisconnect]) \<and>
                (case disconnect_error (att (attempt_no rs' - 1)) of
                   Some d \<Rightarrow> res = Inl d
                 | None \<Rightarrow>
                     if \<not> is_retryable env error then res = Inl error
                     else res = Inl error \<and> new \<noteq> [] \<and> last new = error \<and>
                          mx < clock rs' - t0 rs' \<and> give_up rs' = error))) \<and>
      (\<forall>rs0. errors rs0 = [] \<longrightarrow>
         give_up rs0 = raise_new ServiceUnavailable ''Transaction failed'') \<and>
      (\<forall>m rs0 e. attempt_body (att (attempt_no rs0)) = Inl e \<and> driver_error env e \<and>
           disconnect_error (att (attempt_no rs0)) = None \<and> \<not> is_retryable env e \<longrightarrow>
         (\<exists>rs1. run_loop (Suc m) env att slept mx rs0 = Some (Inl e, rs1) \<and>
            errors rs1 = errors rs0 \<and>
            s_trace rs1 = s_trace rs0 @ [SvAttempt (attempt_no rs0), SvDisconnect])) \<and>
      (\<forall>m rs0 e d. attempt_body (att (attempt_no rs0)) = Inl e \<and> driver_error env e \<and>
           disconnect_error (att (attempt_no rs0)) = Some d \<longrightarrow>
         (\<exists>rs1. run_loop (Suc m) env att slept mx rs0 = Some (Inl d, rs1) \<and>
            errors rs1 = errors rs0 \<and>
            s_trace rs1 = s_trace rs0 @ [SvAttempt (attempt_no rs0), SvDisconnect]))"
proof -
  note a = run_loop_outcome_aux [OF assms, unfolded loop_outcome_def final_attempt_def]
  have b: "\<forall>rs0. errors rs0 = [] \<longrightarrow>
         give_up rs0 = raise_new ServiceUnavailable ''Transaction failed''"
    by (simp add: give_up_def)
  have c: "\<exists>rs1. run_loop (Suc m) env att slept mx rs0 = Some (Inl e, rs1) \<and>
            errors rs1 = errors rs0 \<and>
            s_trace rs1 = s_trace rs0 @ [SvAttempt (attempt_no rs0), SvDisconnect]"
    if "attempt_body (att (attempt_no rs0)) = Inl e" "driver_error env e"
      "disconnect_error (att (attempt_no rs0)) = None" "\<not> is_retryable env e"
    for m rs0 e
    using that by (simp add: Let_def driver_error_def)
  have d: "\<exists>rs1. run_loop (Suc m) env att slept mx rs0 = Some (Inl d, rs1) \<and>
            errors rs1 = errors rs0 \<and>
            s_trace rs1 = s_trace rs0 @ [SvAttempt (attempt_no rs0), SvDisconnect]"
    if "attempt_body (att (attempt_no rs0)) = Inl e" "driver_error env e"
      "disconnect_error (att (attempt_no rs0)) = Some d"
    for m rs0 e d
    using that by (simp add: Let_def driver_error_def)
  from a b c d show ?thesis by blast
qed


theorem run_loop_outcome_witness:
  "map_option fst (run_loop 5 ex_env flaky half_second 30 fresh_run)
     = Some (Inl (raise_new ClientError ''syntax error'')) \<and>
   (\<exists>rs'. run_loop 5 ex_env flaky half_second 30 fresh_run
            = Some (Inl (raise_new ClientError ''syntax error''), rs') \<and>
          attempt_no fresh_run < attempt_no rs')"
proof -
  have e: "map_option fst (run_loop 5 ex_env flaky half_second 30 fresh_run)
             = Some (Inl (raise_new ClientError ''syntax error''))"
    by code_simp
  then obtain rs' where
    h: "run_loop 5 ex_env flaky half_second 30 fresh_run
          = Some (Inl (raise_new ClientError ''syntax error''), rs')"
    by (cases "run_loop 5 ex_env flaky half_second 30 fresh_run") auto
  from run_loop_outcome [OF h] have "attempt_no fresh_run < attempt_no rs'"
    by (rule conjunct1)
  with e h show ?thesis by blast
qed

text \<open>
  Claim C8, as stated, has no proviso on the disconnect. When \<open>_disconnect()\<close> raises
  \<open>OSError\<close>, the non-retryable \<open>ClientError\<close> of the attempt is not re-raised: the
  \<open>OSError\<close> is; and the retryable \<open>ServiceUnavailable\<close> of an attempt is not appended: the
  loop ends with the \<open>OSError\<close> and an empty history.
\<close>

theorem failing_disconnect_counterexample:
  "attempt_body (rejected_then_broken 0) = Inl (raise_new ClientError ''syntax error'') \<and>
   driver_error ex_env (raise_new ClientError ''syntax error'') \<and>
   \<not> is_retryable ex_env (raise_new ClientError ''syntax error'') \<and>
   map_option fst (run_loop 5 ex_env rejected_then_broken half_second 30 fresh_run)
     = Some (Inl (raise_new OSError ''broken pipe'')) \<and>
   attempt_body (lost_then_broken 0) = Inl (raise_new ServiceUnavailable ''connection lost'') \<and>
   driver_error ex_env (raise_new ServiceUnavailable ''connection lost'') \<and>
   is_retryable ex_env (raise_new ServiceUnavailable ''connection lost'') \<and>
   map_option (\<lambda>p. (fst p, errors (snd p)))
       (run_loop 5 ex_env lost_then_broken half_second 30 fresh_run)
     = Some (Inl (raise_new OSError ''broken pipe''), [])"
  by code_simp

section \<open>Properties of the addresses\<close>

text \<open>
  Claim C10. For a plain (unresolved) address \<open>a\<close>, \<open>a.unresolved\<close> is \<open>a\<close> itself. For a
  \<open>ResolvedAddress\<close> built from the parts \<open>ps\<close> with the original host name \<open>h\<close>,
  \<open>unresolved\<close> is an \<open>Address\<close> whose host is \<open>h\<close> and whose remaining parts are those of
  \<open>ps\<close>: the port for two parts (IPv4), port, flow and scope for four (IPv6).
\<close>

theorem unresolved_round_trip:
  "(\<not> issubclass (cls a) ResolvedAddress \<longrightarrow> unresolved a = Inr a) \<and>
   (ResolvedAddress_new ResolvedAddress (Tuple ps) h = Inr r \<longrightarrow>
      unresolved r = Inr \<lparr>parts = h # drop 1 ps,
                          cls = (if length ps = 2 then IPv4Address else IPv6Address),
                          host_name_attr = None\<rparr>)"
  by (auto simp: unresolved_def ResolvedAddress_new_def Address_new_def subclass_by_family_def
      split: if_splits sum.splits)

theorem unresolved_round_trip_witness:
  "unresolved \<lparr>parts = [PStr ''db.example'', PInt 7687], cls = IPv4Address, host_name_attr = None\<rparr>
     = Inr \<lparr>parts = [PStr ''db.example'', PInt 7687], cls = IPv4Address, host_name_attr = None\<rparr> \<and>
   ResolvedAddress_new ResolvedAddress (Tuple [PStr ''10.0.0.1'', PInt 7687]) (PStr ''db.example'')
     = Inr \<lparr>parts = [PStr ''10.0.0.1'', PInt 7687], cls = ResolvedIPv4Address,
            host_name_attr = Some (PStr ''db.example'')\<rparr> \<and>
   unresolved \<lparr>parts = [PStr ''10.0.0.1'', PInt 7687], cls = ResolvedIPv4Address,
            host_name_attr = Some (PStr ''db.example'')\<rparr>
     = Inr \<lparr>parts = [PStr ''db.example'', PInt 7687], cls = IPv4Address, host_name_attr = None\<rparr>"
proof -
  have r: "ResolvedAddress_new ResolvedAddress (Tuple [PStr ''10.0.0.1'', PInt 7687]) (PStr ''db.example'')
     = Inr \<lparr>parts = [PStr ''10.0.0.1'', PInt 7687], cls = ResolvedIPv4Address,
            host_name_attr = Some (PStr ''db.example'')\<rparr>"
    by (simp add: ResolvedAddress_new_def Address_new_def subclass_by_family_def)
  show ?thesis
    using r
      unresolved_round_trip [of "\<lparr>parts = [PStr ''db.example'', PInt 7687], cls = IPv4Address, host_name_attr = None\<rparr>"
        "[PStr ''10.0.0.1'', PInt 7687]" "PStr ''db.example''"
        "\<lparr>parts = [PStr ''10.0.0.1'', PInt 7687], cls = ResolvedIPv4Address,
            host_name_attr = Some (PStr ''db.example'')\<rparr>"]
    by simp
qed

end
